theory Spec2Isabelle
  imports Main "HOL-Library.Word"
begin

section \<open>Permit2TransferValidator: data model\<close>

text \<open>
  The contract \<^verbatim>\<open>Permit2TransferValidator\<close> of
  \<^verbatim>\<open>contracts/chainlink_permit2.sol\<close> owns no storage. Each entry point checks its
  arguments with \<^verbatim>\<open>require\<close>, calls the Permit2 registry and the OFT bridge token, and
  emits events. The Solidity value types are machine words of their declared width.
\<close>

type_synonym address = "160 word"
type_synonym uint32 = "32 word"
type_synonym uint48 = "48 word"
type_synonym uint64 = "64 word"
type_synonym uint160 = "160 word"
type_synonym uint256 = "256 word"
type_synonym bytes32 = "256 word"
type_synonym bytes = "8 word list"

subsection \<open>Structs of the three interfaces\<close>

text \<open>\<^verbatim>\<open>IOFT.SendParam\<close>; the field \<^verbatim>\<open>to\<close> is named \<open>send_to\<close> here.\<close>

record SendParam =
  dstEid :: uint32
  send_to :: bytes32
  amountLD :: uint256
  minAmountLD :: uint256
  extraOptions :: bytes
  composeMsg :: bytes
  oftCmd :: bytes

record MessagingFee =
  nativeFee :: uint256
  lzTokenFee :: uint256

text \<open>\<^verbatim>\<open>IOFT.MessagingReceipt\<close>; the field \<^verbatim>\<open>nonce\<close> is named \<open>receipt_nonce\<close>.\<close>

record MessagingReceipt =
  guid :: bytes32
  receipt_nonce :: uint64
  fee :: MessagingFee

record OFTReceipt =
  amountSentLD :: uint256
  amountReceivedLD :: uint256

text \<open>\<^verbatim>\<open>IAllowanceTransfer.PermitDetails\<close> and \<^verbatim>\<open>PermitSingle\<close>.\<close>

record PermitDetails =
  token :: address
  amount :: uint160
  expiration :: uint48
  nonce :: uint48

record PermitSingle =
  details :: PermitDetails
  spender :: address
  sigDeadline :: uint256

text \<open>
  \<^verbatim>\<open>ISignatureTransfer.TokenPermissions\<close>, \<^verbatim>\<open>PermitTransferFrom\<close> and
  \<^verbatim>\<open>SignatureTransferDetails\<close>. Field names that the allowance structs already use
  carry a prefix: \<open>permitted_token\<close>, \<open>permitted_amount\<close>, \<open>transfer_nonce\<close>,
  \<open>transfer_to\<close>.
\<close>

record TokenPermissions =
  permitted_token :: address
  permitted_amount :: uint256

record PermitTransferFrom =
  permitted :: TokenPermissions
  transfer_nonce :: uint256
  deadline :: uint256

record SignatureTransferDetails =
  transfer_to :: address
  requestedAmount :: uint256

subsection \<open>Constants\<close>

definition PERMIT2 :: address where
  "PERMIT2 = 0x000000000022D473030F116dDEE9F6B43aC78BA3"

definition PERMIT2_SIGNATURE :: address where
  "PERMIT2_SIGNATURE = 0x000000000022D473030F116dDEE9F6B43aC78BA3"

subsection \<open>Events, external calls and the trace of one execution\<close>

text \<open>The three events, with the arguments in the order of their declarations.\<close>

datatype event =
    PermitValidated address address address uint160
  | TokensTransferred address address address uint160
  | TokensBridged address address uint32 address uint256 bytes32

text \<open>
  One constructor for each external function the contract calls, holding the arguments
  of the call. The calls on an \<^verbatim>\<open>IOFT\<close> handle start with the address of the handle;
  \<open>OFT_send\<close> has the attached call value next.
\<close>

datatype ext_call =
    Permit2_permit address PermitSingle bytes
  | Permit2_transferFrom address address uint160 address
  | Permit2_permitTransferFrom PermitTransferFrom SignatureTransferDetails address bytes
  | OFT_approve address address uint256
  | OFT_balanceOf address address
  | OFT_send address uint256 SendParam MessagingFee address
  | OFT_quoteSend address SendParam bool

fun call_target :: "ext_call \<Rightarrow> address" where
  "call_target (Permit2_permit _ _ _) = PERMIT2"
| "call_target (Permit2_transferFrom _ _ _ _) = PERMIT2"
| "call_target (Permit2_permitTransferFrom _ _ _ _) = PERMIT2_SIGNATURE"
| "call_target (OFT_approve oft _ _) = oft"
| "call_target (OFT_balanceOf oft _) = oft"
| "call_target (OFT_send oft _ _ _ _) = oft"
| "call_target (OFT_quoteSend oft _ _) = oft"

text \<open>
  What an execution does, in order: an external call is recorded when it is issued, an
  event when it is emitted.
\<close>

datatype action = Call ext_call | Emit event

datatype revert_reason =
    Require_failed string
  | External_reverted ext_call
  | Not_payable

text \<open>
  The result of running an entry point on a world state \<open>'w\<close> (everything outside the
  contract: token balances, the registry's allowances and nonces, the bridge).
  \<open>Returned x w tr\<close>: the call returned \<open>x\<close>, the world is now \<open>w\<close>, and \<open>tr\<close> is what
  was done. \<open>Reverted r tr\<close>: the call reverted for the reason \<open>r\<close> after doing \<open>tr\<close>;
  no world is kept, since a revert discards every change.
\<close>

datatype ('w, 'a) outcome =
    Reverted revert_reason "action list"
  | Returned 'a 'w "action list"

type_synonym ('w, 'a) exec = "'w \<Rightarrow> action list \<Rightarrow> ('w, 'a) outcome"

fun trace_of :: "('w, 'a) outcome \<Rightarrow> action list" where
  "trace_of (Reverted r tr) = tr"
| "trace_of (Returned x w tr) = tr"

fun calls_of :: "action list \<Rightarrow> ext_call list" where
  "calls_of [] = []"
| "calls_of (Call c # tr) = c # calls_of tr"
| "calls_of (Emit e # tr) = calls_of tr"

fun events_of :: "action list \<Rightarrow> event list" where
  "events_of [] = []"
| "events_of (Call c # tr) = events_of tr"
| "events_of (Emit e # tr) = e # events_of tr"

subsection \<open>The external collaborators\<close>

text \<open>
  Permit2 and the OFT token are not part of the repository: their behaviour is a
  parameter. A registry function takes its caller (always the validator itself), the
  arguments, and the world; a state-changing function of the token takes the token's
  address, the caller, the arguments (for \<open>oft_send\<close> the attached value first), and the
  world. \<open>None\<close> is a failed call: the callee reverts, holds no code, or returns data
  that does not decode. The two \<^verbatim>\<open>view\<close> functions of \<^verbatim>\<open>IOFT\<close> are called statically
  and return no new world.
\<close>

record 'w env =
  permit2_permit ::
    "address \<Rightarrow> address \<Rightarrow> PermitSingle \<Rightarrow> bytes \<Rightarrow> 'w \<Rightarrow> 'w option"
  permit2_transferFrom ::
    "address \<Rightarrow> address \<Rightarrow> address \<Rightarrow> uint160 \<Rightarrow> address \<Rightarrow> 'w \<Rightarrow> 'w option"
  permit2_permitTransferFrom ::
    "address \<Rightarrow> PermitTransferFrom \<Rightarrow> SignatureTransferDetails \<Rightarrow> address \<Rightarrow> bytes
      \<Rightarrow> 'w \<Rightarrow> 'w option"
  oft_approve ::
    "address \<Rightarrow> address \<Rightarrow> address \<Rightarrow> uint256 \<Rightarrow> 'w \<Rightarrow> ('w \<times> bool) option"
  oft_balanceOf ::
    "address \<Rightarrow> address \<Rightarrow> 'w \<Rightarrow> uint256 option"
  oft_send ::
    "address \<Rightarrow> address \<Rightarrow> uint256 \<Rightarrow> SendParam \<Rightarrow> MessagingFee \<Rightarrow> address
      \<Rightarrow> 'w \<Rightarrow> ('w \<times> MessagingReceipt \<times> OFTReceipt) option"
  oft_quoteSend ::
    "address \<Rightarrow> SendParam \<Rightarrow> bool \<Rightarrow> 'w \<Rightarrow> MessagingFee option"

subsection \<open>Statements\<close>

text \<open>
  Each statement takes the rest of the function body as its last argument, so that a
  definition reads top to bottom like the Solidity.
\<close>

definition done_ok :: "'a \<Rightarrow> ('w, 'a) exec" where
  "done_ok x w tr = Returned x w tr"

definition require :: "bool \<Rightarrow> string \<Rightarrow> ('w, 'a) exec \<Rightarrow> ('w, 'a) exec" where
  "require c msg k w tr = (if c then k w tr else Reverted (Require_failed msg) tr)"

definition emit :: "event \<Rightarrow> ('w, 'a) exec \<Rightarrow> ('w, 'a) exec" where
  "emit e k w tr = k w (tr @ [Emit e])"

text \<open>A state-changing external call: a revert of the callee reverts the caller.\<close>

definition external_call ::
  "ext_call \<Rightarrow> ('w \<Rightarrow> ('w \<times> 'r) option) \<Rightarrow> ('r \<Rightarrow> ('w, 'a) exec) \<Rightarrow> ('w, 'a) exec" where
  "external_call c f k w tr =
     (case f w of
        None \<Rightarrow> Reverted (External_reverted c) (tr @ [Call c])
      | Some (w', r) \<Rightarrow> k r w' (tr @ [Call c]))"

text \<open>A static call to a \<^verbatim>\<open>view\<close> function: the world stays as it is.\<close>

definition static_call ::
  "ext_call \<Rightarrow> ('w \<Rightarrow> 'r option) \<Rightarrow> ('r \<Rightarrow> ('w, 'a) exec) \<Rightarrow> ('w, 'a) exec" where
  "static_call c f k w tr =
     (case f w of
        None \<Rightarrow> Reverted (External_reverted c) (tr @ [Call c])
      | Some r \<Rightarrow> k r w (tr @ [Call c]))"

definition PERMIT2_permit ::
  "'w env \<Rightarrow> address \<Rightarrow> address \<Rightarrow> PermitSingle \<Rightarrow> bytes \<Rightarrow> ('w, 'a) exec \<Rightarrow> ('w, 'a) exec" where
  "PERMIT2_permit e self owner permitSingle signature k =
     external_call (Permit2_permit owner permitSingle signature)
       (\<lambda>w. map_option (\<lambda>w'. (w', ())) (permit2_permit e self owner permitSingle signature w))
       (\<lambda>_. k)"

definition PERMIT2_transferFrom ::
  "'w env \<Rightarrow> address \<Rightarrow> address \<Rightarrow> address \<Rightarrow> uint160 \<Rightarrow> address \<Rightarrow> ('w, 'a) exec
    \<Rightarrow> ('w, 'a) exec" where
  "PERMIT2_transferFrom e self from to amount' token' k =
     external_call (Permit2_transferFrom from to amount' token')
       (\<lambda>w. map_option (\<lambda>w'. (w', ())) (permit2_transferFrom e self from to amount' token' w))
       (\<lambda>_. k)"

definition PERMIT2_SIGNATURE_permitTransferFrom ::
  "'w env \<Rightarrow> address \<Rightarrow> PermitTransferFrom \<Rightarrow> SignatureTransferDetails \<Rightarrow> address \<Rightarrow> bytes
    \<Rightarrow> ('w, 'a) exec \<Rightarrow> ('w, 'a) exec" where
  "PERMIT2_SIGNATURE_permitTransferFrom e self permit transferDetails owner signature k =
     external_call (Permit2_permitTransferFrom permit transferDetails owner signature)
       (\<lambda>w. map_option (\<lambda>w'. (w', ()))
          (permit2_permitTransferFrom e self permit transferDetails owner signature w))
       (\<lambda>_. k)"

text \<open>\<^verbatim>\<open>approve\<close> returns a \<^verbatim>\<open>bool\<close>, which the contract never reads.\<close>

definition oft_approve_call ::
  "'w env \<Rightarrow> address \<Rightarrow> address \<Rightarrow> address \<Rightarrow> uint256 \<Rightarrow> (bool \<Rightarrow> ('w, 'a) exec)
    \<Rightarrow> ('w, 'a) exec" where
  "oft_approve_call e self oft spender' amount' k =
     external_call (OFT_approve oft spender' amount') (oft_approve e oft self spender' amount') k"

definition oft_balanceOf_call ::
  "'w env \<Rightarrow> address \<Rightarrow> address \<Rightarrow> (uint256 \<Rightarrow> ('w, 'a) exec) \<Rightarrow> ('w, 'a) exec" where
  "oft_balanceOf_call e oft account k =
     static_call (OFT_balanceOf oft account) (oft_balanceOf e oft account) k"

definition oft_send_call ::
  "'w env \<Rightarrow> address \<Rightarrow> address \<Rightarrow> uint256 \<Rightarrow> SendParam \<Rightarrow> MessagingFee \<Rightarrow> address
    \<Rightarrow> (MessagingReceipt \<times> OFTReceipt \<Rightarrow> ('w, 'a) exec) \<Rightarrow> ('w, 'a) exec" where
  "oft_send_call e self oft val sendParam fee' refundAddress k =
     external_call (OFT_send oft val sendParam fee' refundAddress)
       (oft_send e oft self val sendParam fee' refundAddress) k"

definition oft_quoteSend_call ::
  "'w env \<Rightarrow> address \<Rightarrow> SendParam \<Rightarrow> bool \<Rightarrow> (MessagingFee \<Rightarrow> ('w, 'a) exec) \<Rightarrow> ('w, 'a) exec" where
  "oft_quoteSend_call e oft sendParam payInLzToken k =
     static_call (OFT_quoteSend oft sendParam payInLzToken)
       (oft_quoteSend e oft sendParam payInLzToken) k"

section \<open>The entry points\<close>

text \<open>
  Every entry point takes the collaborators \<open>e\<close> and the contract's own address \<open>self\<close>
  (\<^verbatim>\<open>address(this)\<close>) before the Solidity arguments.
\<close>

definition validatePermit ::
  "'w env \<Rightarrow> address \<Rightarrow> PermitSingle \<Rightarrow> bytes \<Rightarrow> address \<Rightarrow> ('w, unit) exec" where
  "validatePermit e self permitSingle signature owner =
     PERMIT2_permit e self owner permitSingle signature (
     emit (PermitValidated owner (token (details permitSingle)) (spender permitSingle)
             (amount (details permitSingle))) (
     done_ok ()))"

definition validatePermitAndTransfer ::
  "'w env \<Rightarrow> address \<Rightarrow> PermitSingle \<Rightarrow> bytes \<Rightarrow> address \<Rightarrow> address \<Rightarrow> uint160
    \<Rightarrow> ('w, unit) exec" where
  "validatePermitAndTransfer e self permitSingle signature owner recipient amount' =
     require (recipient \<noteq> 0) ''Invalid recipient'' (
     require (recipient \<noteq> self) ''Cannot transfer to self'' (
     require (amount' > 0) ''Zero amount'' (
     require (amount' \<le> amount (details permitSingle)) ''Amount exceeds permitted'' (
     require (token (details permitSingle) \<noteq> 0) ''Invalid token'' (
     require (spender permitSingle = self) ''Invalid spender'' (
     PERMIT2_permit e self owner permitSingle signature (
     PERMIT2_transferFrom e self owner recipient amount' (token (details permitSingle)) (
     emit (TokensTransferred owner recipient (token (details permitSingle)) amount') (
     done_ok ())))))))))"

definition receiveTokensWithPermit ::
  "'w env \<Rightarrow> address \<Rightarrow> PermitSingle \<Rightarrow> bytes \<Rightarrow> address \<Rightarrow> uint160 \<Rightarrow> ('w, unit) exec" where
  "receiveTokensWithPermit e self permitSingle signature owner amount' =
     require (amount' > 0) ''Zero amount'' (
     require (amount' \<le> amount (details permitSingle)) ''Amount exceeds permitted'' (
     require (token (details permitSingle) \<noteq> 0) ''Invalid token'' (
     require (spender permitSingle = self) ''Invalid spender'' (
     PERMIT2_permit e self owner permitSingle signature (
     PERMIT2_transferFrom e self owner self amount' (token (details permitSingle)) (
     emit (TokensTransferred owner self (token (details permitSingle)) amount') (
     done_ok ())))))))"

text \<open>
  \<^verbatim>\<open>_sendViaLayerZero\<close> (a name cannot start with an underscore here). It builds the
  \<^verbatim>\<open>SendParam\<close> and the \<^verbatim>\<open>MessagingFee\<close>, calls \<^verbatim>\<open>oft.send{value: nativeFee}\<close> and
  returns \<^verbatim>\<open>msgReceipt.guid\<close>. \<^verbatim>\<open>bytes32(uint256(uint160(dstAddress)))\<close> widens the
  address with zeros on the left.
\<close>

definition sendViaLayerZero ::
  "'w env \<Rightarrow> address \<Rightarrow> address \<Rightarrow> uint32 \<Rightarrow> address \<Rightarrow> uint256 \<Rightarrow> uint256 \<Rightarrow> bytes
    \<Rightarrow> address \<Rightarrow> uint256 \<Rightarrow> (bytes32 \<Rightarrow> ('w, 'a) exec) \<Rightarrow> ('w, 'a) exec" where
  "sendViaLayerZero e self oft dstEid' dstAddress amount' minAmountLD' extraOptions'
      refundAddress nativeFee' k =
     (let sendParam = \<lparr> dstEid = dstEid',
                        send_to = (ucast ((ucast dstAddress) :: uint160) :: uint256),
                        amountLD = amount',
                        minAmountLD = minAmountLD',
                        extraOptions = extraOptions',
                        composeMsg = [],
                        oftCmd = [] \<rparr>;
          fee' = \<lparr> nativeFee = nativeFee', lzTokenFee = 0 \<rparr>
      in oft_send_call e self oft nativeFee' sendParam fee' refundAddress
           (\<lambda>(msgReceipt, oftReceipt). k (guid msgReceipt)))"

text \<open>
  \<^verbatim>\<open>receiveAndBridge\<close> is \<^verbatim>\<open>payable\<close>: \<open>msg_value\<close> is \<^verbatim>\<open>msg.value\<close>. The
  \<^verbatim>\<open>uint160\<close> amount is widened where a \<^verbatim>\<open>uint256\<close> is expected.
\<close>

definition receiveAndBridge ::
  "'w env \<Rightarrow> address \<Rightarrow> uint256 \<Rightarrow> PermitSingle \<Rightarrow> bytes \<Rightarrow> address \<Rightarrow> uint160 \<Rightarrow> uint32
    \<Rightarrow> address \<Rightarrow> uint256 \<Rightarrow> bytes \<Rightarrow> ('w, unit) exec" where
  "receiveAndBridge e self msg_value permitSingle signature owner amount' dstEid' dstAddress
      minAmountLD' extraOptions' =
     require (amount' > 0) ''Zero amount'' (
     require (dstAddress \<noteq> 0) ''Invalid destination address'' (
     require (amount' \<le> amount (details permitSingle)) ''Amount exceeds permitted'' (
     require (token (details permitSingle) \<noteq> 0) ''Invalid token'' (
     require (spender permitSingle = self) ''Invalid spender'' (
     PERMIT2_permit e self owner permitSingle signature (
     PERMIT2_transferFrom e self owner self amount' (token (details permitSingle)) (
     emit (TokensTransferred owner self (token (details permitSingle)) amount') (
     (let oft = token (details permitSingle) in
      oft_approve_call e self oft (token (details permitSingle)) (ucast amount') (\<lambda>_.
      sendViaLayerZero e self oft dstEid' dstAddress (ucast amount') minAmountLD' extraOptions'
        owner msg_value (\<lambda>guid'.
      emit (TokensBridged owner (token (details permitSingle)) dstEid' dstAddress (ucast amount')
              guid') (
      done_ok ()))))))))))))"

text \<open>
  \<^verbatim>\<open>receiveAndBridgeGasless\<close>. The explicit conversion \<^verbatim>\<open>uint160(amount)\<close> in the
  first event keeps the low 160 bits.
\<close>

definition receiveAndBridgeGasless ::
  "'w env \<Rightarrow> address \<Rightarrow> uint256 \<Rightarrow> PermitTransferFrom \<Rightarrow> address \<Rightarrow> bytes \<Rightarrow> uint32
    \<Rightarrow> address \<Rightarrow> uint256 \<Rightarrow> bytes \<Rightarrow> ('w, unit) exec" where
  "receiveAndBridgeGasless e self msg_value permit owner signature dstEid' dstAddress
      minAmountLD' extraOptions' =
     require (permitted_amount (permitted permit) > 0) ''Zero amount'' (
     require (dstAddress \<noteq> 0) ''Invalid destination address'' (
     require (permitted_token (permitted permit) \<noteq> 0) ''Invalid token'' (
     (let amount' = permitted_amount (permitted permit) in
      PERMIT2_SIGNATURE_permitTransferFrom e self permit
        \<lparr> transfer_to = self, requestedAmount = amount' \<rparr> owner signature (
      emit (TokensTransferred owner self (permitted_token (permitted permit))
              ((ucast amount') :: uint160)) (
      (let oft = permitted_token (permitted permit) in
       oft_approve_call e self oft oft amount' (\<lambda>_.
       sendViaLayerZero e self oft dstEid' dstAddress amount' minAmountLD' extraOptions'
         owner msg_value (\<lambda>messageId.
       emit (TokensBridged owner (permitted_token (permitted permit)) dstEid' dstAddress amount'
               messageId) (
       done_ok ()))))))))))"

definition quoteBridge ::
  "'w env \<Rightarrow> address \<Rightarrow> uint32 \<Rightarrow> address \<Rightarrow> uint256 \<Rightarrow> uint256 \<Rightarrow> bytes
    \<Rightarrow> ('w, uint256) exec" where
  "quoteBridge e token' dstEid' dstAddress amount' minAmountLD' extraOptions' =
     (let oft = token';
          toAddress = (ucast ((ucast dstAddress) :: uint160) :: uint256);
          sendParam = \<lparr> dstEid = dstEid',
                        send_to = toAddress,
                        amountLD = amount',
                        minAmountLD = minAmountLD',
                        extraOptions = extraOptions',
                        composeMsg = [],
                        oftCmd = [] \<rparr>
      in oft_quoteSend_call e oft sendParam False (\<lambda>fee'.
         done_ok (nativeFee fee')))"

text \<open>\<^verbatim>\<open>withdrawTokens\<close>; \<open>msg_sender\<close> is \<^verbatim>\<open>msg.sender\<close>.\<close>

definition withdrawTokens ::
  "'w env \<Rightarrow> address \<Rightarrow> address \<Rightarrow> address \<Rightarrow> address \<Rightarrow> uint256 \<Rightarrow> ('w, unit) exec" where
  "withdrawTokens e self msg_sender token' to amount' =
     require (msg_sender = self \<or> to = msg_sender) ''Not authorized'' (
     (let oft = token' in
      oft_balanceOf_call e oft self (\<lambda>bal.
      require (bal \<ge> amount') ''Insufficient balance'' (
      oft_approve_call e self oft to amount' (\<lambda>_.
      done_ok ())))))"

section \<open>Calling the contract\<close>

text \<open>The seven entry points with their arguments.\<close>

datatype operation =
    ValidatePermit PermitSingle bytes address
  | ValidatePermitAndTransfer PermitSingle bytes address address uint160
  | ReceiveTokensWithPermit PermitSingle bytes address uint160
  | ReceiveAndBridge PermitSingle bytes address uint160 uint32 address uint256 bytes
  | ReceiveAndBridgeGasless PermitTransferFrom address bytes uint32 address uint256 bytes
  | QuoteBridge address uint32 address uint256 uint256 bytes
  | WithdrawTokens address address uint256

datatype return_data = No_data | Uint uint256

text \<open>
  An entry point that is not \<^verbatim>\<open>payable\<close> reverts when value is attached: the
  compiler puts this check before the body.
\<close>

definition nonpayable :: "uint256 \<Rightarrow> ('w, 'a) exec \<Rightarrow> ('w, 'a) exec" where
  "nonpayable msg_value k w tr = (if msg_value = 0 then k w tr else Reverted Not_payable tr)"

fun returning :: "('a \<Rightarrow> 'b) \<Rightarrow> ('w, 'a) outcome \<Rightarrow> ('w, 'b) outcome" where
  "returning f (Reverted r tr) = Reverted r tr"
| "returning f (Returned x w tr) = Returned (f x) w tr"

text \<open>
  A message call to the contract at \<open>self\<close> from \<open>msg_sender\<close> with \<open>msg_value\<close>
  attached, starting from the world \<open>w\<close> with nothing done yet.
\<close>

fun call_contract ::
  "'w env \<Rightarrow> address \<Rightarrow> address \<Rightarrow> uint256 \<Rightarrow> operation \<Rightarrow> 'w \<Rightarrow> ('w, return_data) outcome" where
  "call_contract e self msg_sender msg_value (ValidatePermit permitSingle signature owner) w =
     returning (\<lambda>_. No_data)
       (nonpayable msg_value (validatePermit e self permitSingle signature owner) w [])"
| "call_contract e self msg_sender msg_value
     (ValidatePermitAndTransfer permitSingle signature owner recipient amount') w =
     returning (\<lambda>_. No_data)
       (nonpayable msg_value
          (validatePermitAndTransfer e self permitSingle signature owner recipient amount') w [])"
| "call_contract e self msg_sender msg_value
     (ReceiveTokensWithPermit permitSingle signature owner amount') w =
     returning (\<lambda>_. No_data)
       (nonpayable msg_value
          (receiveTokensWithPermit e self permitSingle signature owner amount') w [])"
| "call_contract e self msg_sender msg_value
     (ReceiveAndBridge permitSingle signature owner amount' dstEid' dstAddress minAmountLD'
        extraOptions') w =
     returning (\<lambda>_. No_data)
       (receiveAndBridge e self msg_value permitSingle signature owner amount' dstEid'
          dstAddress minAmountLD' extraOptions' w [])"
| "call_contract e self msg_sender msg_value
     (ReceiveAndBridgeGasless permit owner signature dstEid' dstAddress minAmountLD'
        extraOptions') w =
     returning (\<lambda>_. No_data)
       (receiveAndBridgeGasless e self msg_value permit owner signature dstEid' dstAddress
          minAmountLD' extraOptions' w [])"
| "call_contract e self msg_sender msg_value
     (QuoteBridge token' dstEid' dstAddress amount' minAmountLD' extraOptions') w =
     returning Uint
       (nonpayable msg_value
          (quoteBridge e token' dstEid' dstAddress amount' minAmountLD' extraOptions') w [])"
| "call_contract e self msg_sender msg_value (WithdrawTokens token' to amount') w =
     returning (\<lambda>_. No_data)
       (nonpayable msg_value (withdrawTokens e self msg_sender token' to amount') w [])"

text \<open>
  The effect of a top-level call on the chain: a call that returns commits its world and
  its events; a call that reverts leaves the world it started from and logs nothing.
\<close>

fun state_after :: "'w \<Rightarrow> ('w, 'a) outcome \<Rightarrow> 'w" where
  "state_after w (Reverted r tr) = w"
| "state_after w (Returned x w' tr) = w'"

fun logs_after :: "('w, 'a) outcome \<Rightarrow> event list" where
  "logs_after (Reverted r tr) = []"
| "logs_after (Returned x w' tr) = events_of tr"

fun reverted :: "('w, 'a) outcome \<Rightarrow> bool" where
  "reverted (Reverted r tr) = True"
| "reverted (Returned x w tr) = False"

text \<open>
  What one external call does to the world according to the collaborators, when the
  validator at \<open>self\<close> issues it; the static calls change nothing.
\<close>

fun perform :: "'w env \<Rightarrow> address \<Rightarrow> ext_call \<Rightarrow> 'w \<Rightarrow> 'w option" where
  "perform e self (Permit2_permit owner permitSingle signature) w =
     permit2_permit e self owner permitSingle signature w"
| "perform e self (Permit2_transferFrom from to amount' token') w =
     permit2_transferFrom e self from to amount' token' w"
| "perform e self (Permit2_permitTransferFrom permit transferDetails owner signature) w =
     permit2_permitTransferFrom e self permit transferDetails owner signature w"
| "perform e self (OFT_approve oft spender' amount') w =
     map_option fst (oft_approve e oft self spender' amount' w)"
| "perform e self (OFT_balanceOf oft account) w =
     map_option (\<lambda>_. w) (oft_balanceOf e oft account w)"
| "perform e self (OFT_send oft val sendParam fee' refundAddress) w =
     map_option fst (oft_send e oft self val sendParam fee' refundAddress w)"
| "perform e self (OFT_quoteSend oft sendParam payInLzToken) w =
     map_option (\<lambda>_. w) (oft_quoteSend e oft sendParam payInLzToken w)"

fun perform_all :: "'w env \<Rightarrow> address \<Rightarrow> ext_call list \<Rightarrow> 'w \<Rightarrow> 'w option" where
  "perform_all e self [] w = Some w"
| "perform_all e self (c # cs) w =
     (case perform e self c w of None \<Rightarrow> None | Some w' \<Rightarrow> perform_all e self cs w')"

text \<open>
  The first call of a list that fails when the calls are performed one after the other
  from the world \<open>w\<close>, with the calls that come after it; \<open>None\<close> when all succeed.
\<close>

fun failed_call ::
  "'w env \<Rightarrow> address \<Rightarrow> ext_call list \<Rightarrow> 'w \<Rightarrow> (ext_call \<times> ext_call list) option" where
  "failed_call e self [] w = None"
| "failed_call e self (c # cs) w =
     (case perform e self c w of
        None \<Rightarrow> Some (c, cs)
      | Some w' \<Rightarrow> failed_call e self cs w')"

text \<open>The two entry points declared \<^verbatim>\<open>payable\<close>.\<close>

fun payable :: "operation \<Rightarrow> bool" where
  "payable (ReceiveAndBridge _ _ _ _ _ _ _ _) = True"
| "payable (ReceiveAndBridgeGasless _ _ _ _ _ _ _) = True"
| "payable _ = False"

text \<open>
  The \<^verbatim>\<open>require\<close> statements of each entry point, in the order of the source, as
  pairs of the condition and the message. The second \<^verbatim>\<open>require\<close> of
  \<^verbatim>\<open>withdrawTokens\<close> tests the balance that the token reports.
\<close>

fun requires_of ::
  "'w env \<Rightarrow> address \<Rightarrow> address \<Rightarrow> operation \<Rightarrow> 'w \<Rightarrow> (bool \<times> string) list" where
  "requires_of e self msg_sender (ValidatePermit permitSingle signature owner) w = []"
| "requires_of e self msg_sender
     (ValidatePermitAndTransfer permitSingle signature owner recipient amount') w =
     [(recipient \<noteq> 0, ''Invalid recipient''),
      (recipient \<noteq> self, ''Cannot transfer to self''),
      (amount' > 0, ''Zero amount''),
      (amount' \<le> amount (details permitSingle), ''Amount exceeds permitted''),
      (token (details permitSingle) \<noteq> 0, ''Invalid token''),
      (spender permitSingle = self, ''Invalid spender'')]"
| "requires_of e self msg_sender (ReceiveTokensWithPermit permitSingle signature owner amount') w =
     [(amount' > 0, ''Zero amount''),
      (amount' \<le> amount (details permitSingle), ''Amount exceeds permitted''),
      (token (details permitSingle) \<noteq> 0, ''Invalid token''),
      (spender permitSingle = self, ''Invalid spender'')]"
| "requires_of e self msg_sender
     (ReceiveAndBridge permitSingle signature owner amount' dstEid' dstAddress minAmountLD'
        extraOptions') w =
     [(amount' > 0, ''Zero amount''),
      (dstAddress \<noteq> 0, ''Invalid destination address''),
      (amount' \<le> amount (details permitSingle), ''Amount exceeds permitted''),
      (token (details permitSingle) \<noteq> 0, ''Invalid token''),
      (spender permitSingle = self, ''Invalid spender'')]"
| "requires_of e self msg_sender
     (ReceiveAndBridgeGasless permit owner signature dstEid' dstAddress minAmountLD'
        extraOptions') w =
     [(permitted_amount (permitted permit) > 0, ''Zero amount''),
      (dstAddress \<noteq> 0, ''Invalid destination address''),
      (permitted_token (permitted permit) \<noteq> 0, ''Invalid token'')]"
| "requires_of e self msg_sender
     (QuoteBridge token' dstEid' dstAddress amount' minAmountLD' extraOptions') w = []"
| "requires_of e self msg_sender (WithdrawTokens token' to amount') w =
     (msg_sender = self \<or> to = msg_sender, ''Not authorized'') #
     (case oft_balanceOf e token' self w of
        None \<Rightarrow> []
      | Some bal \<Rightarrow> [(bal \<ge> amount', ''Insufficient balance'')])"

subsection \<open>Kinds of external call\<close>

text \<open>
  The calls to the registry; the calls that move tokens (\<^verbatim>\<open>permit\<close> and
  \<^verbatim>\<open>approve\<close> only record an allowance, the two \<^verbatim>\<open>view\<close> functions read); and
  the \<^verbatim>\<open>SendParam\<close> a call to the bridge carries.
\<close>

fun registry_call :: "ext_call \<Rightarrow> bool" where
  "registry_call (Permit2_permit _ _ _) = True"
| "registry_call (Permit2_transferFrom _ _ _ _) = True"
| "registry_call (Permit2_permitTransferFrom _ _ _ _) = True"
| "registry_call _ = False"

fun moves_tokens :: "ext_call \<Rightarrow> bool" where
  "moves_tokens (Permit2_transferFrom _ _ _ _) = True"
| "moves_tokens (Permit2_permitTransferFrom _ _ _ _) = True"
| "moves_tokens (OFT_send _ _ _ _ _) = True"
| "moves_tokens _ = False"

fun send_param_of :: "ext_call \<Rightarrow> SendParam option" where
  "send_param_of (OFT_send _ _ sendParam _ _) = Some sendParam"
| "send_param_of (OFT_quoteSend _ sendParam _) = Some sendParam"
| "send_param_of _ = None"

section \<open>A sample environment\<close>

text \<open>
  Simple stand-ins for Permit2 and for the OFT token, to run the entry points on concrete
  inputs. The world holds one owner's token balance, the validator's balance, the one
  allowance the registry has recorded and for whom, whether the owner's one-shot nonce is
  spent, the approval the validator has granted on the token and to whom, and the amount
  sent over the bridge. A signature is valid when it is the single byte 1. The bridge
  asks a native fee of 5.
\<close>

record sample_world =
  owner_tokens :: nat
  validator_tokens :: nat
  allowance :: nat
  allowed_spender :: address
  nonce_spent :: bool
  approved :: nat
  approved_spender :: address
  bridged :: nat

definition sample_env :: "sample_world env" where
  "sample_env = \<lparr>
     permit2_permit = (\<lambda>caller owner permitSingle signature w.
       if signature = [1]
       then Some (w\<lparr> allowance := unat (amount (details permitSingle)),
                     allowed_spender := spender permitSingle \<rparr>)
       else None),
     permit2_transferFrom = (\<lambda>caller from to amount' token' w.
       if caller = allowed_spender w \<and> unat amount' \<le> allowance w
          \<and> unat amount' \<le> owner_tokens w
       then Some (w\<lparr> allowance := allowance w - unat amount',
                     owner_tokens := owner_tokens w - unat amount',
                     validator_tokens :=
                       (if to = caller then validator_tokens w + unat amount'
                        else validator_tokens w) \<rparr>)
       else None),
     permit2_permitTransferFrom = (\<lambda>caller permit transferDetails owner signature w.
       if signature = [1] \<and> \<not> nonce_spent w
          \<and> requestedAmount transferDetails \<le> permitted_amount (permitted permit)
          \<and> unat (requestedAmount transferDetails) \<le> owner_tokens w
       then Some (w\<lparr> nonce_spent := True,
                     owner_tokens := owner_tokens w - unat (requestedAmount transferDetails),
                     validator_tokens :=
                       (if transfer_to transferDetails = caller
                        then validator_tokens w + unat (requestedAmount transferDetails)
                        else validator_tokens w) \<rparr>)
       else None),
     oft_approve = (\<lambda>oft caller spender' amount' w.
       Some (w\<lparr> approved := unat amount', approved_spender := spender' \<rparr>, True)),
     oft_balanceOf = (\<lambda>oft account w. Some (of_nat (validator_tokens w))),
     oft_send = (\<lambda>oft caller val sendParam fee' refundAddress w.
       if 5 \<le> val \<and> nativeFee fee' = val \<and> unat (amountLD sendParam) \<le> validator_tokens w
       then Some (w\<lparr> validator_tokens := validator_tokens w - unat (amountLD sendParam),
                     bridged := bridged w + unat (amountLD sendParam) \<rparr>,
                  \<lparr> guid = 42, receipt_nonce = 1, fee = fee' \<rparr>,
                  \<lparr> amountSentLD = amountLD sendParam,
                    amountReceivedLD = amountLD sendParam \<rparr>)
       else None),
     oft_quoteSend = (\<lambda>oft sendParam payInLzToken w.
       Some \<lparr> nativeFee = 5, lzTokenFee = 0 \<rparr>) \<rparr>"

definition sample_world0 :: sample_world where
  "sample_world0 = \<lparr> owner_tokens = 3000000, validator_tokens = 0, allowance = 0,
     allowed_spender = 0, nonce_spent = False, approved = 0, approved_spender = 0,
     bridged = 0 \<rparr>"

text \<open>The validator, the owner who signs, a recipient, and the token.\<close>

definition validator_addr :: address where "validator_addr = 0x7A11"
definition alice :: address where "alice = 0xA11CE"
definition bob :: address where "bob = 0xB0B"
definition usdc :: address where "usdc = 0x05DC"

definition sample_permit :: "address \<Rightarrow> PermitSingle" where
  "sample_permit spender' =
     \<lparr> details = \<lparr> token = usdc, amount = 1000000, expiration = 2000000000, nonce = 0 \<rparr>,
       spender = spender', sigDeadline = 2000000000 \<rparr>"

definition sample_transfer_permit :: "uint256 \<Rightarrow> PermitTransferFrom" where
  "sample_transfer_permit amount' =
     \<lparr> permitted = \<lparr> permitted_token = usdc, permitted_amount = amount' \<rparr>,
       transfer_nonce = 0, deadline = 2000000000 \<rparr>"

section \<open>What each entry point does\<close>

text \<open>
  The definitions unfolded once and for all: what a run of each entry point from an
  empty trace looks like, in terms of the collaborators' answers.
\<close>

lemmas stmt_defs = done_ok_def require_def emit_def external_call_def static_call_def
  PERMIT2_permit_def PERMIT2_transferFrom_def PERMIT2_SIGNATURE_permitTransferFrom_def
  oft_approve_call_def oft_balanceOf_call_def oft_send_call_def oft_quoteSend_call_def
  sendViaLayerZero_def nonpayable_def

lemmas sample_defs = sample_env_def sample_world0_def sample_permit_def
  sample_transfer_permit_def validator_addr_def alice_def bob_def usdc_def

lemma validatePermit_run:
  "validatePermit e self permitSingle signature owner w [] =
     (case permit2_permit e self owner permitSingle signature w of
        None \<Rightarrow> Reverted (External_reverted (Permit2_permit owner permitSingle signature))
                  [Call (Permit2_permit owner permitSingle signature)]
      | Some w' \<Rightarrow> Returned () w'
                  [Call (Permit2_permit owner permitSingle signature),
                   Emit (PermitValidated owner (token (details permitSingle))
                           (spender permitSingle) (amount (details permitSingle)))])"
  by (simp add: validatePermit_def stmt_defs split: option.splits)

lemma validatePermitAndTransfer_Returned:
  assumes "validatePermitAndTransfer e self permitSingle signature owner recipient amount' w [] =
             Returned x w' tr"
  shows "\<exists>w1. permit2_permit e self owner permitSingle signature w = Some w1
     \<and> permit2_transferFrom e self owner recipient amount' (token (details permitSingle)) w1 = Some w'
     \<and> tr = [Call (Permit2_permit owner permitSingle signature),
             Call (Permit2_transferFrom owner recipient amount' (token (details permitSingle))),
             Emit (TokensTransferred owner recipient (token (details permitSingle)) amount')]"
  using assms
  by (auto simp: validatePermitAndTransfer_def stmt_defs split: if_splits option.splits)

lemma receiveTokensWithPermit_Returned:
  assumes "receiveTokensWithPermit e self permitSingle signature owner amount' w [] =
             Returned x w' tr"
  shows "\<exists>w1. permit2_permit e self owner permitSingle signature w = Some w1
     \<and> permit2_transferFrom e self owner self amount' (token (details permitSingle)) w1 = Some w'
     \<and> tr = [Call (Permit2_permit owner permitSingle signature),
             Call (Permit2_transferFrom owner self amount' (token (details permitSingle))),
             Emit (TokensTransferred owner self (token (details permitSingle)) amount')]"
  using assms
  by (auto simp: receiveTokensWithPermit_def stmt_defs split: if_splits option.splits)

lemma receiveAndBridge_Returned:
  assumes "receiveAndBridge e self msg_value permitSingle signature owner amount' dstEid'
             dstAddress minAmountLD' extraOptions' w [] = Returned x w' tr"
  shows "\<exists>w1 w2 w3 b rc orc.
       permit2_permit e self owner permitSingle signature w = Some w1
     \<and> permit2_transferFrom e self owner self amount' (token (details permitSingle)) w1 = Some w2
     \<and> oft_approve e (token (details permitSingle)) self (token (details permitSingle))
         (ucast amount') w2 = Some (w3, b)
     \<and> oft_send e (token (details permitSingle)) self msg_value
         \<lparr> dstEid = dstEid', send_to = ucast dstAddress, amountLD = ucast amount',
           minAmountLD = minAmountLD', extraOptions = extraOptions', composeMsg = [],
           oftCmd = [] \<rparr>
         \<lparr> nativeFee = msg_value, lzTokenFee = 0 \<rparr> owner w3 = Some (w', rc, orc)
     \<and> tr = [Call (Permit2_permit owner permitSingle signature),
             Call (Permit2_transferFrom owner self amount' (token (details permitSingle))),
             Emit (TokensTransferred owner self (token (details permitSingle)) amount'),
             Call (OFT_approve (token (details permitSingle)) (token (details permitSingle))
                     (ucast amount')),
             Call (OFT_send (token (details permitSingle)) msg_value
                     \<lparr> dstEid = dstEid', send_to = ucast dstAddress, amountLD = ucast amount',
                       minAmountLD = minAmountLD', extraOptions = extraOptions',
                       composeMsg = [], oftCmd = [] \<rparr>
                     \<lparr> nativeFee = msg_value, lzTokenFee = 0 \<rparr> owner),
             Emit (TokensBridged owner (token (details permitSingle)) dstEid' dstAddress
                     (ucast amount') (guid rc))]"
  using assms
  by (auto simp: receiveAndBridge_def stmt_defs Let_def split: if_splits option.splits prod.splits)

lemma receiveAndBridgeGasless_Returned:
  assumes "receiveAndBridgeGasless e self msg_value permit owner signature dstEid' dstAddress
             minAmountLD' extraOptions' w [] = Returned x w' tr"
  shows "\<exists>w1 w2 b rc orc.
       permit2_permitTransferFrom e self permit
         \<lparr> transfer_to = self, requestedAmount = permitted_amount (permitted permit) \<rparr>
         owner signature w = Some w1
     \<and> oft_approve e (permitted_token (permitted permit)) self
         (permitted_token (permitted permit)) (permitted_amount (permitted permit)) w1 =
           Some (w2, b)
     \<and> oft_send e (permitted_token (permitted permit)) self msg_value
         \<lparr> dstEid = dstEid', send_to = ucast dstAddress,
           amountLD = permitted_amount (permitted permit), minAmountLD = minAmountLD',
           extraOptions = extraOptions', composeMsg = [], oftCmd = [] \<rparr>
         \<lparr> nativeFee = msg_value, lzTokenFee = 0 \<rparr> owner w2 = Some (w', rc, orc)
     \<and> tr = [Call (Permit2_permitTransferFrom permit
                     \<lparr> transfer_to = self,
                       requestedAmount = permitted_amount (permitted permit) \<rparr>
                     owner signature),
             Emit (TokensTransferred owner self (permitted_token (permitted permit))
                     (ucast (permitted_amount (permitted permit)))),
             Call (OFT_approve (permitted_token (permitted permit))
                     (permitted_token (permitted permit))
                     (permitted_amount (permitted permit))),
             Call (OFT_send (permitted_token (permitted permit)) msg_value
                     \<lparr> dstEid = dstEid', send_to = ucast dstAddress,
                       amountLD = permitted_amount (permitted permit),
                       minAmountLD = minAmountLD', extraOptions = extraOptions',
                       composeMsg = [], oftCmd = [] \<rparr>
                     \<lparr> nativeFee = msg_value, lzTokenFee = 0 \<rparr> owner),
             Emit (TokensBridged owner (permitted_token (permitted permit)) dstEid'
                     dstAddress (permitted_amount (permitted permit)) (guid rc))]"
  using assms
  by (auto simp: receiveAndBridgeGasless_def stmt_defs Let_def
           split: if_splits option.splits prod.splits)

lemma quoteBridge_run:
  "quoteBridge e token' dstEid' dstAddress amount' minAmountLD' extraOptions' w [] =
     (case oft_quoteSend e token'
             \<lparr> dstEid = dstEid', send_to = ucast dstAddress, amountLD = amount',
               minAmountLD = minAmountLD', extraOptions = extraOptions', composeMsg = [],
               oftCmd = [] \<rparr> False w of
        None \<Rightarrow> Reverted (External_reverted (OFT_quoteSend token'
                    \<lparr> dstEid = dstEid', send_to = ucast dstAddress, amountLD = amount',
                      minAmountLD = minAmountLD', extraOptions = extraOptions',
                      composeMsg = [], oftCmd = [] \<rparr> False))
                  [Call (OFT_quoteSend token'
                    \<lparr> dstEid = dstEid', send_to = ucast dstAddress, amountLD = amount',
                      minAmountLD = minAmountLD', extraOptions = extraOptions',
                      composeMsg = [], oftCmd = [] \<rparr> False)]
      | Some fee' \<Rightarrow> Returned (nativeFee fee') w
                  [Call (OFT_quoteSend token'
                    \<lparr> dstEid = dstEid', send_to = ucast dstAddress, amountLD = amount',
                      minAmountLD = minAmountLD', extraOptions = extraOptions',
                      composeMsg = [], oftCmd = [] \<rparr> False)])"
  by (simp add: quoteBridge_def stmt_defs Let_def split: option.splits)

lemma withdrawTokens_Returned:
  assumes "withdrawTokens e self msg_sender token' to amount' w [] = Returned x w' tr"
  shows "(msg_sender = self \<or> to = msg_sender)
     \<and> (\<exists>bal b. oft_balanceOf e token' self w = Some bal \<and> amount' \<le> bal
           \<and> oft_approve e token' self to amount' w = Some (w', b)
           \<and> tr = [Call (OFT_balanceOf token' self), Call (OFT_approve token' to amount')])"
  using assms
  by (auto simp: withdrawTokens_def stmt_defs Let_def split: if_splits option.splits prod.splits)

lemma returning_Returned:
  "returning f out = Returned y w' tr \<Longrightarrow> \<exists>x. out = Returned x w' tr \<and> y = f x"
  by (cases out) auto

lemma call_contract_perform_all:
  assumes "call_contract e self msg_sender msg_value op w = Returned y w' tr"
  shows "perform_all e self (calls_of tr) w = Some w'"
proof (cases op)
  case (ValidatePermit ps sg ow)
  with assms show ?thesis
    by (auto simp: validatePermit_run nonpayable_def dest!: returning_Returned
             split: if_splits option.splits)
next
  case (ValidatePermitAndTransfer ps sg ow rc am)
  with assms show ?thesis
    by (auto simp: nonpayable_def dest!: returning_Returned validatePermitAndTransfer_Returned
             split: if_splits)
next
  case (ReceiveTokensWithPermit ps sg ow am)
  with assms show ?thesis
    by (auto simp: nonpayable_def dest!: returning_Returned receiveTokensWithPermit_Returned
             split: if_splits)
next
  case (ReceiveAndBridge ps sg ow am de da mn eo)
  with assms show ?thesis
    by (auto dest!: returning_Returned receiveAndBridge_Returned)
next
  case (ReceiveAndBridgeGasless pt ow sg de da mn eo)
  with assms show ?thesis
    by (auto dest!: returning_Returned receiveAndBridgeGasless_Returned)
next
  case (QuoteBridge tk de da am mn eo)
  with assms show ?thesis
    by (auto simp: quoteBridge_run nonpayable_def dest!: returning_Returned
             split: if_splits option.splits)
next
  case (WithdrawTokens tk to am)
  with assms show ?thesis
    by (auto simp: nonpayable_def dest!: returning_Returned withdrawTokens_Returned
             split: if_splits)
qed

text \<open>
  Failures and aborts of a message call: a failed external call, a false
  \<^verbatim>\<open>require\<close> and value sent to an entry point that is not payable each revert the
  call, and a call reverts for no other reason.
\<close>

lemmas entry_defs = validatePermit_def validatePermitAndTransfer_def
  receiveTokensWithPermit_def receiveAndBridge_def receiveAndBridgeGasless_def
  quoteBridge_def withdrawTokens_def

lemma failed_call_aborts:
  assumes "failed_call e self
             (calls_of (trace_of (call_contract e self msg_sender msg_value op w))) w =
           Some (c, rest)"
  shows "call_contract e self msg_sender msg_value op w =
           Reverted (External_reverted c)
             (trace_of (call_contract e self msg_sender msg_value op w))
         \<and> rest = []"
  using assms
  by (cases op)
     (auto simp: entry_defs stmt_defs Let_def split: if_splits option.splits prod.splits)

lemma failed_require_aborts:
  assumes "(False, msg) \<in> set (requires_of e self msg_sender op w)"
  shows "reverted (call_contract e self msg_sender msg_value op w)"
  using assms
  by (cases op)
     (auto simp: entry_defs stmt_defs Let_def split: if_splits option.splits prod.splits)

lemma value_to_nonpayable_aborts:
  assumes "msg_value \<noteq> 0" and "\<not> payable op"
  shows "call_contract e self msg_sender msg_value op w = Reverted Not_payable []"
  using assms by (cases op) (auto simp: nonpayable_def)

lemma returning_Reverted:
  "returning f out = Reverted r tr \<Longrightarrow> out = Reverted r tr"
  by (cases out) auto

lemma abort_has_cause:
  assumes "call_contract e self msg_sender msg_value op w = Reverted r tr"
  shows "(\<exists>c. r = External_reverted c \<and> failed_call e self (calls_of tr) w = Some (c, []))
       \<or> (\<exists>msg. r = Require_failed msg
                 \<and> (False, msg) \<in> set (requires_of e self msg_sender op w))
       \<or> (r = Not_payable \<and> msg_value \<noteq> 0 \<and> \<not> payable op)"
  using assms
  by (cases op)
     (auto simp: entry_defs stmt_defs Let_def dest!: returning_Reverted
           split: if_splits option.splits prod.splits)

text \<open>An explicit conversion to \<^verbatim>\<open>uint160\<close> keeps the low 160 bits.\<close>

lemma ucast_low_160: "unat (ucast (a :: uint256) :: uint160) = unat a mod 2 ^ 160"
  by (simp add: unsigned_ucast_eq take_bit_eq_mod)

text \<open>The two bridge flows on the sample environment, with the bridge's fee attached.\<close>

lemma sample_receiveAndBridge:
  "receiveAndBridge sample_env validator_addr 5 (sample_permit validator_addr) [1] alice
     1000000 30111 bob 0 [] sample_world0 [] =
   Returned ()
     (sample_world0\<lparr> allowance := 0, allowed_spender := validator_addr,
        owner_tokens := 2000000, approved := 1000000, approved_spender := usdc,
        validator_tokens := 0, bridged := 1000000 \<rparr>)
     [Call (Permit2_permit alice (sample_permit validator_addr) [1]),
      Call (Permit2_transferFrom alice validator_addr 1000000 usdc),
      Emit (TokensTransferred alice validator_addr usdc 1000000),
      Call (OFT_approve usdc usdc 1000000),
      Call (OFT_send usdc 5
        \<lparr> dstEid = 30111, send_to = ucast bob, amountLD = 1000000, minAmountLD = 0,
          extraOptions = [], composeMsg = [], oftCmd = [] \<rparr>
        \<lparr> nativeFee = 5, lzTokenFee = 0 \<rparr> alice),
      Emit (TokensBridged alice usdc 30111 bob 1000000 42)]"
  by (simp add: receiveAndBridge_def stmt_defs Let_def sample_defs)

lemma sample_receiveAndBridgeGasless:
  "receiveAndBridgeGasless sample_env validator_addr 5 (sample_transfer_permit 500000) alice [1]
     30111 bob 0 [] sample_world0 [] =
   Returned ()
     (sample_world0\<lparr> nonce_spent := True, owner_tokens := 2500000,
        approved := 500000, approved_spender := usdc,
        validator_tokens := 0, bridged := 500000 \<rparr>)
     [Call (Permit2_permitTransferFrom (sample_transfer_permit 500000)
          \<lparr> transfer_to = validator_addr, requestedAmount = 500000 \<rparr> alice [1]),
      Emit (TokensTransferred alice validator_addr usdc 500000),
      Call (OFT_approve usdc usdc 500000),
      Call (OFT_send usdc 5
        \<lparr> dstEid = 30111, send_to = ucast bob, amountLD = 500000, minAmountLD = 0,
          extraOptions = [], composeMsg = [], oftCmd = [] \<rparr>
        \<lparr> nativeFee = 5, lzTokenFee = 0 \<rparr> alice),
      Emit (TokensBridged alice usdc 30111 bob 500000 42)]"
  by (simp add: receiveAndBridgeGasless_def stmt_defs Let_def sample_defs)

section \<open>The claims\<close>

subsection \<open>C1: the spender check\<close>

text \<open>
  C1 says that every operation taking an AllowancePermit, \<^verbatim>\<open>validatePermit\<close> included,
  rejects a permit whose spender is not the contract before any external call.
  \<^verbatim>\<open>validatePermit\<close> has no \<^verbatim>\<open>require\<close>: with the sample registry, a permit signed
  for the spender \<open>bob\<close> is forwarded to \<^verbatim>\<open>PERMIT2.permit\<close>, accepted, and reported in
  a \<^verbatim>\<open>PermitValidated\<close> event.
\<close>

theorem validatePermit_foreign_spender_counterexample:
  "spender (sample_permit bob) \<noteq> validator_addr
   \<and> validatePermit sample_env validator_addr (sample_permit bob) [1] alice sample_world0 [] =
       Returned ()
         (sample_world0\<lparr> allowance := 1000000, allowed_spender := bob \<rparr>)
         [Call (Permit2_permit alice (sample_permit bob) [1]),
          Emit (PermitValidated alice usdc bob 1000000)]"
  by (simp add: validatePermit_run sample_defs)

text \<open>
  C1, amended: when the permit's spender is not the contract's own address,
  \<^verbatim>\<open>validatePermitAndTransfer\<close>, \<^verbatim>\<open>receiveTokensWithPermit\<close> and
  \<^verbatim>\<open>receiveAndBridge\<close> revert on a \<^verbatim>\<open>require\<close> with no external call made;
  \<^verbatim>\<open>validatePermit\<close> checks nothing locally and makes exactly one external call, the
  registry's \<^verbatim>\<open>permit\<close>, with the permit as given.
\<close>

theorem spender_mismatch_rejected_locally:
  assumes "spender permitSingle \<noteq> self"
  shows "(\<exists>msg. validatePermitAndTransfer e self permitSingle signature owner recipient amount'
                  w [] = Reverted (Require_failed msg) [])
       \<and> (\<exists>msg. receiveTokensWithPermit e self permitSingle signature owner amount' w [] =
                  Reverted (Require_failed msg) [])
       \<and> (\<exists>msg. receiveAndBridge e self msg_value permitSingle signature owner amount' dstEid'
                  dstAddress minAmountLD' extraOptions' w [] = Reverted (Require_failed msg) [])
       \<and> calls_of (trace_of (validatePermit e self permitSingle signature owner w [])) =
           [Permit2_permit owner permitSingle signature]"
proof -
  have "\<exists>msg. validatePermitAndTransfer e self permitSingle signature owner recipient amount'
                w [] = Reverted (Require_failed msg) []"
    using assms by (simp add: validatePermitAndTransfer_def require_def)
  moreover have "\<exists>msg. receiveTokensWithPermit e self permitSingle signature owner amount' w [] =
                  Reverted (Require_failed msg) []"
    using assms by (simp add: receiveTokensWithPermit_def require_def)
  moreover have "\<exists>msg. receiveAndBridge e self msg_value permitSingle signature owner amount'
                  dstEid' dstAddress minAmountLD' extraOptions' w [] =
                  Reverted (Require_failed msg) []"
    using assms by (simp add: receiveAndBridge_def require_def)
  moreover have "calls_of (trace_of (validatePermit e self permitSingle signature owner w [])) =
           [Permit2_permit owner permitSingle signature]"
    by (simp add: validatePermit_run split: option.splits)
  ultimately show ?thesis by blast
qed

theorem spender_mismatch_rejected_locally_witness:
  "spender (sample_permit bob) \<noteq> validator_addr
   \<and> (\<exists>msg. validatePermitAndTransfer sample_env validator_addr (sample_permit bob) [1] alice
               bob 1000000 sample_world0 [] = Reverted (Require_failed msg) [])
   \<and> (\<exists>msg. receiveTokensWithPermit sample_env validator_addr (sample_permit bob) [1] alice
               1000000 sample_world0 [] = Reverted (Require_failed msg) [])
   \<and> (\<exists>msg. receiveAndBridge sample_env validator_addr 5 (sample_permit bob) [1] alice
               1000000 30111 bob 0 [] sample_world0 [] = Reverted (Require_failed msg) [])
   \<and> calls_of (trace_of (validatePermit sample_env validator_addr (sample_permit bob) [1]
                alice sample_world0 [])) = [Permit2_permit alice (sample_permit bob) [1]]"
proof -
  have h: "spender (sample_permit bob) \<noteq> validator_addr"
    by (simp add: sample_permit_def bob_def validator_addr_def)
  from spender_mismatch_rejected_locally
         [OF h, where e = sample_env and signature = "[1]" and owner = alice
            and recipient = bob and amount' = 1000000 and w = sample_world0
            and msg_value = 5 and dstEid' = 30111 and dstAddress = bob
            and minAmountLD' = 0 and extraOptions' = "[]"] h
  show ?thesis by simp
qed

subsection \<open>C2: the local checks of validatePermitAndTransfer\<close>

text \<open>
  C2: when any local precondition of \<^verbatim>\<open>validatePermitAndTransfer\<close> fails (the
  recipient is null or the contract itself, the amount is zero or above the permit's
  bound, the token is null, or the spender is not the contract), the call reverts on a
  \<^verbatim>\<open>require\<close> and its trace is empty: no external call was made, so the registry was
  not touched. The case of an amount above the bound is the fourth disjunct.
\<close>

theorem validatePermitAndTransfer_local_checks_first:
  assumes "recipient = 0 \<or> recipient = self \<or> amount' = 0
           \<or> amount' > amount (details permitSingle)
           \<or> token (details permitSingle) = 0 \<or> spender permitSingle \<noteq> self"
  shows "\<exists>msg. validatePermitAndTransfer e self permitSingle signature owner recipient amount'
                 w [] = Reverted (Require_failed msg) []"
  using assms by (auto simp: validatePermitAndTransfer_def require_def)

text \<open>Scenario C of the specification: 2,000,000 requested against a bound of 1,000,000.\<close>

theorem validatePermitAndTransfer_local_checks_first_witness:
  "(2000000 :: uint160) > amount (details (sample_permit validator_addr))
   \<and> (\<exists>msg. validatePermitAndTransfer sample_env validator_addr
               (sample_permit validator_addr) [1] alice bob 2000000 sample_world0 [] =
             Reverted (Require_failed msg) [])"
proof -
  have h: "(2000000 :: uint160) > amount (details (sample_permit validator_addr))"
    by (simp add: sample_permit_def)
  then have "bob = 0 \<or> bob = validator_addr \<or> (2000000 :: uint160) = 0
      \<or> (2000000 :: uint160) > amount (details (sample_permit validator_addr))
      \<or> token (details (sample_permit validator_addr)) = 0
      \<or> spender (sample_permit validator_addr) \<noteq> validator_addr"
    by blast
  from validatePermitAndTransfer_local_checks_first
         [OF this, of sample_env "[1]" alice sample_world0] h
  show ?thesis by blast
qed

subsection \<open>C3: a failure aborts the whole call and nothing of it is kept\<close>

text \<open>
  C3: for every entry point and every input, an operation that aborts leaves the world
  as it was before the call. If an external call that the operation issues fails on the
  world reached by the calls before it, the operation reverts on that very call and
  issues nothing after it; if a \<^verbatim>\<open>require\<close> of the entry point is false, or value is
  attached to an entry point that is not payable, the operation reverts. In each case
  the world after the call is the world before it, whatever the earlier calls of the
  same execution (token transfers included) had done, and no event is logged. An
  operation aborts for no other reason than these failures. There is no partial commit:
  an operation that returns has performed every external call of its trace
  successfully, and commits the world so reached.
\<close>

theorem failure_aborts_and_restores_state:
  assumes out: "out = call_contract e self msg_sender msg_value op w"
  shows "(failed_call e self (calls_of (trace_of out)) w = Some (c, rest) \<longrightarrow>
            out = Reverted (External_reverted c) (trace_of out) \<and> rest = []
          \<and> state_after w out = w \<and> logs_after out = [])
       \<and> ((False, msg) \<in> set (requires_of e self msg_sender op w) \<longrightarrow>
            reverted out \<and> state_after w out = w \<and> logs_after out = [])
       \<and> (msg_value \<noteq> 0 \<and> \<not> payable op \<longrightarrow>
            out = Reverted Not_payable [] \<and> state_after w out = w \<and> logs_after out = [])
       \<and> (reverted out \<longrightarrow>
            state_after w out = w \<and> logs_after out = []
          \<and> ((\<exists>c'. failed_call e self (calls_of (trace_of out)) w = Some (c', []))
             \<or> (\<exists>msg'. (False, msg') \<in> set (requires_of e self msg_sender op w))
             \<or> (msg_value \<noteq> 0 \<and> \<not> payable op)))
       \<and> (\<not> reverted out \<longrightarrow>
            perform_all e self (calls_of (trace_of out)) w = Some (state_after w out))"
proof -
  have f1: "failed_call e self (calls_of (trace_of out)) w = Some (c, rest) \<longrightarrow>
            out = Reverted (External_reverted c) (trace_of out) \<and> rest = []
          \<and> state_after w out = w \<and> logs_after out = []"
  proof
    assume "failed_call e self (calls_of (trace_of out)) w = Some (c, rest)"
    then have "out = Reverted (External_reverted c) (trace_of out) \<and> rest = []"
      unfolding out by (rule failed_call_aborts)
    then show "out = Reverted (External_reverted c) (trace_of out) \<and> rest = []
          \<and> state_after w out = w \<and> logs_after out = []"
      by (cases out) auto
  qed
  have f2: "(False, msg) \<in> set (requires_of e self msg_sender op w) \<longrightarrow>
            reverted out \<and> state_after w out = w \<and> logs_after out = []"
  proof
    assume "(False, msg) \<in> set (requires_of e self msg_sender op w)"
    then have "reverted out" unfolding out by (rule failed_require_aborts)
    then show "reverted out \<and> state_after w out = w \<and> logs_after out = []"
      by (cases out) auto
  qed
  have f3: "msg_value \<noteq> 0 \<and> \<not> payable op \<longrightarrow>
            out = Reverted Not_payable [] \<and> state_after w out = w \<and> logs_after out = []"
    unfolding out by (simp add: value_to_nonpayable_aborts)
  have f4: "reverted out \<longrightarrow>
            state_after w out = w \<and> logs_after out = []
          \<and> ((\<exists>c'. failed_call e self (calls_of (trace_of out)) w = Some (c', []))
             \<or> (\<exists>msg'. (False, msg') \<in> set (requires_of e self msg_sender op w))
             \<or> (msg_value \<noteq> 0 \<and> \<not> payable op))"
  proof
    assume "reverted out"
    then obtain r tr where r: "out = Reverted r tr" by (cases out) auto
    then have "call_contract e self msg_sender msg_value op w = Reverted r tr"
      using out by simp
    from abort_has_cause [OF this] r
    show "state_after w out = w \<and> logs_after out = []
          \<and> ((\<exists>c'. failed_call e self (calls_of (trace_of out)) w = Some (c', []))
             \<or> (\<exists>msg'. (False, msg') \<in> set (requires_of e self msg_sender op w))
             \<or> (msg_value \<noteq> 0 \<and> \<not> payable op))"
      by auto
  qed
  have f5: "\<not> reverted out \<longrightarrow>
            perform_all e self (calls_of (trace_of out)) w = Some (state_after w out)"
  proof
    assume "\<not> reverted out"
    then obtain y w' tr where r: "out = Returned y w' tr" by (cases out) auto
    then have "call_contract e self msg_sender msg_value op w = Returned y w' tr"
      using out by simp
    from call_contract_perform_all [OF this] r
    show "perform_all e self (calls_of (trace_of out)) w = Some (state_after w out)"
      by simp
  qed
  from f1 f2 f3 f4 f5 show ?thesis by blast
qed

text \<open>
  With a fee of 4 the sample bridge refuses the send after the registry has moved
  500,000 tokens to the validator and the approval is granted: the call reverts and the
  world is the initial one. A request above the permit's bound fails a \<^verbatim>\<open>require\<close>;
  value sent to \<^verbatim>\<open>validatePermit\<close> is refused. With a fee of 5 the bridge flow
  returns and the whole trace is committed.
\<close>

theorem failure_aborts_and_restores_state_witness:
  "failed_call sample_env validator_addr
     (calls_of (trace_of (call_contract sample_env validator_addr bob 4
        (ReceiveAndBridgeGasless (sample_transfer_permit 500000) alice [1] 30111 bob 0 [])
        sample_world0))) sample_world0 =
     Some (OFT_send usdc 4
        \<lparr> dstEid = 30111, send_to = ucast bob, amountLD = 500000, minAmountLD = 0,
          extraOptions = [], composeMsg = [], oftCmd = [] \<rparr>
        \<lparr> nativeFee = 4, lzTokenFee = 0 \<rparr> alice, [])
   \<and> perform_all sample_env validator_addr
       [Permit2_permitTransferFrom (sample_transfer_permit 500000)
          \<lparr> transfer_to = validator_addr, requestedAmount = 500000 \<rparr> alice [1],
        OFT_approve usdc usdc 500000] sample_world0 =
       Some (sample_world0\<lparr> nonce_spent := True, owner_tokens := 2500000,
               validator_tokens := 500000, approved := 500000, approved_spender := usdc \<rparr>)
   \<and> reverted (call_contract sample_env validator_addr bob 4
       (ReceiveAndBridgeGasless (sample_transfer_permit 500000) alice [1] 30111 bob 0 [])
       sample_world0)
   \<and> state_after sample_world0 (call_contract sample_env validator_addr bob 4
       (ReceiveAndBridgeGasless (sample_transfer_permit 500000) alice [1] 30111 bob 0 [])
       sample_world0) = sample_world0
   \<and> logs_after (call_contract sample_env validator_addr bob 4
       (ReceiveAndBridgeGasless (sample_transfer_permit 500000) alice [1] 30111 bob 0 [])
       sample_world0) = []
   \<and> (False, ''Amount exceeds permitted'') \<in> set (requires_of sample_env validator_addr bob
       (ValidatePermitAndTransfer (sample_permit validator_addr) [1] alice bob 2000000)
       sample_world0)
   \<and> reverted (call_contract sample_env validator_addr bob 0
       (ValidatePermitAndTransfer (sample_permit validator_addr) [1] alice bob 2000000)
       sample_world0)
   \<and> state_after sample_world0 (call_contract sample_env validator_addr bob 0
       (ValidatePermitAndTransfer (sample_permit validator_addr) [1] alice bob 2000000)
       sample_world0) = sample_world0
   \<and> (1 :: uint256) \<noteq> 0
   \<and> \<not> payable (ValidatePermit (sample_permit validator_addr) [1] alice)
   \<and> call_contract sample_env validator_addr bob 1
       (ValidatePermit (sample_permit validator_addr) [1] alice) sample_world0 =
     Reverted Not_payable []
   \<and> \<not> reverted (call_contract sample_env validator_addr bob 5
       (ReceiveAndBridgeGasless (sample_transfer_permit 500000) alice [1] 30111 bob 0 [])
       sample_world0)
   \<and> perform_all sample_env validator_addr
       (calls_of (trace_of (call_contract sample_env validator_addr bob 5
          (ReceiveAndBridgeGasless (sample_transfer_permit 500000) alice [1] 30111 bob 0 [])
          sample_world0))) sample_world0 =
     Some (sample_world0\<lparr> nonce_spent := True, owner_tokens := 2500000,
        approved := 500000, approved_spender := usdc,
        validator_tokens := 0, bridged := 500000 \<rparr>)"
proof -
  have r4: "call_contract sample_env validator_addr bob 4
       (ReceiveAndBridgeGasless (sample_transfer_permit 500000) alice [1] 30111 bob 0 [])
       sample_world0 =
     Reverted (External_reverted (OFT_send usdc 4
        \<lparr> dstEid = 30111, send_to = ucast bob, amountLD = 500000, minAmountLD = 0,
          extraOptions = [], composeMsg = [], oftCmd = [] \<rparr>
        \<lparr> nativeFee = 4, lzTokenFee = 0 \<rparr> alice))
      [Call (Permit2_permitTransferFrom (sample_transfer_permit 500000)
          \<lparr> transfer_to = validator_addr, requestedAmount = 500000 \<rparr> alice [1]),
       Emit (TokensTransferred alice validator_addr usdc 500000),
       Call (OFT_approve usdc usdc 500000),
       Call (OFT_send usdc 4
        \<lparr> dstEid = 30111, send_to = ucast bob, amountLD = 500000, minAmountLD = 0,
          extraOptions = [], composeMsg = [], oftCmd = [] \<rparr>
        \<lparr> nativeFee = 4, lzTokenFee = 0 \<rparr> alice)]"
    by (simp add: receiveAndBridgeGasless_def stmt_defs Let_def sample_defs)
  have mid: "perform_all sample_env validator_addr
       [Permit2_permitTransferFrom (sample_transfer_permit 500000)
          \<lparr> transfer_to = validator_addr, requestedAmount = 500000 \<rparr> alice [1],
        OFT_approve usdc usdc 500000] sample_world0 =
       Some (sample_world0\<lparr> nonce_spent := True, owner_tokens := 2500000,
               validator_tokens := 500000, approved := 500000, approved_spender := usdc \<rparr>)"
    by (simp add: sample_defs)
  have fc: "failed_call sample_env validator_addr
     (calls_of (trace_of (call_contract sample_env validator_addr bob 4
        (ReceiveAndBridgeGasless (sample_transfer_permit 500000) alice [1] 30111 bob 0 [])
        sample_world0))) sample_world0 =
     Some (OFT_send usdc 4
        \<lparr> dstEid = 30111, send_to = ucast bob, amountLD = 500000, minAmountLD = 0,
          extraOptions = [], composeMsg = [], oftCmd = [] \<rparr>
        \<lparr> nativeFee = 4, lzTokenFee = 0 \<rparr> alice, [])"
    unfolding r4 by (simp add: sample_defs)
  have rq: "(False, ''Amount exceeds permitted'') \<in> set (requires_of sample_env validator_addr
       bob (ValidatePermitAndTransfer (sample_permit validator_addr) [1] alice bob 2000000)
       sample_world0)"
    by (simp add: sample_defs)
  have np: "(1 :: uint256) \<noteq> 0
            \<and> \<not> payable (ValidatePermit (sample_permit validator_addr) [1] alice)"
    by simp
  have r5: "call_contract sample_env validator_addr bob 5
       (ReceiveAndBridgeGasless (sample_transfer_permit 500000) alice [1] 30111 bob 0 [])
       sample_world0 =
     Returned No_data
       (sample_world0\<lparr> nonce_spent := True, owner_tokens := 2500000,
          approved := 500000, approved_spender := usdc,
          validator_tokens := 0, bridged := 500000 \<rparr>)
       [Call (Permit2_permitTransferFrom (sample_transfer_permit 500000)
            \<lparr> transfer_to = validator_addr, requestedAmount = 500000 \<rparr> alice [1]),
        Emit (TokensTransferred alice validator_addr usdc 500000),
        Call (OFT_approve usdc usdc 500000),
        Call (OFT_send usdc 5
          \<lparr> dstEid = 30111, send_to = ucast bob, amountLD = 500000, minAmountLD = 0,
            extraOptions = [], composeMsg = [], oftCmd = [] \<rparr>
          \<lparr> nativeFee = 5, lzTokenFee = 0 \<rparr> alice),
        Emit (TokensBridged alice usdc 30111 bob 500000 42)]"
    by (simp add: sample_receiveAndBridgeGasless)
  then have n5: "\<not> reverted (call_contract sample_env validator_addr bob 5
       (ReceiveAndBridgeGasless (sample_transfer_permit 500000) alice [1] 30111 bob 0 [])
       sample_world0)"
    by simp
  note a = failure_aborts_and_restores_state [OF refl, THEN conjunct1, THEN mp, OF fc]
  note b = failure_aborts_and_restores_state
             [where e = sample_env and self = validator_addr and msg_sender = bob
                and msg_value = 0 and w = sample_world0
                and op = "ValidatePermitAndTransfer (sample_permit validator_addr) [1] alice
                            bob 2000000",
              OF refl, THEN conjunct2, THEN conjunct1, THEN mp, OF rq]
  note c = failure_aborts_and_restores_state
             [where e = sample_env and self = validator_addr and msg_sender = bob
                and msg_value = 1 and w = sample_world0
                and op = "ValidatePermit (sample_permit validator_addr) [1] alice",
              OF refl, THEN conjunct2, THEN conjunct2, THEN conjunct1, THEN mp, OF np]
  note d = failure_aborts_and_restores_state
             [OF refl, THEN conjunct2, THEN conjunct2, THEN conjunct2, THEN conjunct2,
              THEN mp, OF n5]
  have rv: "reverted (call_contract sample_env validator_addr bob 4
       (ReceiveAndBridgeGasless (sample_transfer_permit 500000) alice [1] 30111 bob 0 [])
       sample_world0)"
    unfolding r4 by simp
  from a b c d fc mid rq np n5 rv r5 show ?thesis by simp
qed

subsection \<open>C4: the single fund-pulling call of receiveAndBridgeGasless\<close>

text \<open>
  C4 says that every call to \<^verbatim>\<open>receiveAndBridgeGasless\<close> makes exactly one external
  call to pull funds. A call with a permit amount of zero fails the first
  \<^verbatim>\<open>require\<close> and makes no call to the registry at all.
\<close>

theorem receiveAndBridgeGasless_zero_amount_counterexample:
  "length (filter registry_call (calls_of (trace_of
      (receiveAndBridgeGasless sample_env validator_addr 5 (sample_transfer_permit 0) alice [1]
         30111 bob 0 [] sample_world0 [])))) \<noteq> 1"
  by (simp add: receiveAndBridgeGasless_def stmt_defs Let_def sample_defs)

text \<open>
  C4, amended: a call to \<^verbatim>\<open>receiveAndBridgeGasless\<close> that passes its three local
  checks (permit amount positive, destination address and token not null) makes exactly
  one call to the registry, \<^verbatim>\<open>permitTransferFrom\<close>, with the contract itself as
  destination and the permit's own amount as requested amount; it is the first thing the
  call does, and no \<^verbatim>\<open>permit\<close> or \<^verbatim>\<open>transferFrom\<close> is ever issued. A call that
  fails a local check does nothing at all.
\<close>

theorem receiveAndBridgeGasless_single_pull:
  "filter registry_call (calls_of (trace_of
      (receiveAndBridgeGasless e self msg_value permit owner signature dstEid' dstAddress
         minAmountLD' extraOptions' w []))) =
     (if permitted_amount (permitted permit) > 0 \<and> dstAddress \<noteq> 0
         \<and> permitted_token (permitted permit) \<noteq> 0
      then [Permit2_permitTransferFrom permit
              \<lparr> transfer_to = self, requestedAmount = permitted_amount (permitted permit) \<rparr>
              owner signature]
      else [])
   \<and> take 1 (trace_of
      (receiveAndBridgeGasless e self msg_value permit owner signature dstEid' dstAddress
         minAmountLD' extraOptions' w [])) =
     (if permitted_amount (permitted permit) > 0 \<and> dstAddress \<noteq> 0
         \<and> permitted_token (permitted permit) \<noteq> 0
      then [Call (Permit2_permitTransferFrom permit
              \<lparr> transfer_to = self, requestedAmount = permitted_amount (permitted permit) \<rparr>
              owner signature)]
      else [])"
  by (simp add: receiveAndBridgeGasless_def stmt_defs Let_def split: option.splits prod.splits)

theorem receiveAndBridgeGasless_single_pull_witness:
  "permitted_amount (permitted (sample_transfer_permit 500000)) > 0 \<and> bob \<noteq> 0
   \<and> permitted_token (permitted (sample_transfer_permit 500000)) \<noteq> 0
   \<and> filter registry_call (calls_of (trace_of
      (receiveAndBridgeGasless sample_env validator_addr 5 (sample_transfer_permit 500000) alice
         [1] 30111 bob 0 [] sample_world0 []))) =
      [Permit2_permitTransferFrom (sample_transfer_permit 500000)
         \<lparr> transfer_to = validator_addr, requestedAmount = 500000 \<rparr> alice [1]]"
proof -
  have h: "permitted_amount (permitted (sample_transfer_permit 500000)) > 0 \<and> bob \<noteq> 0
           \<and> permitted_token (permitted (sample_transfer_permit 500000)) \<noteq> 0"
    by (simp add: sample_defs)
  have a: "permitted_amount (permitted (sample_transfer_permit 500000)) = 500000"
    by (simp add: sample_defs)
  from receiveAndBridgeGasless_single_pull [of sample_env validator_addr 5
         "sample_transfer_permit 500000" alice "[1]" 30111 bob 0 "[]" sample_world0] h a
  show ?thesis by simp
qed

subsection \<open>C5: the order of effects in the two bridge flows\<close>

text \<open>
  C5: in every successful call to \<^verbatim>\<open>receiveAndBridge\<close> and to
  \<^verbatim>\<open>receiveAndBridgeGasless\<close>, the registry call that moves the funds into the
  contract has returned before \<^verbatim>\<open>approve\<close> and the bridge's \<^verbatim>\<open>send\<close> are called
  (each call runs on the world its predecessor returned), the \<^verbatim>\<open>TokensTransferred\<close>
  event comes before the \<^verbatim>\<open>TokensBridged\<close> event, and the latter carries the
  \<^verbatim>\<open>guid\<close> of the receipt that \<^verbatim>\<open>send\<close> returned.
\<close>

theorem bridge_flows_in_order:
  "(receiveAndBridge e self msg_value permitSingle signature owner amount' dstEid' dstAddress
      minAmountLD' extraOptions' w [] = Returned x w' tr \<longrightarrow>
    (\<exists>w1 w2 w3 b rc orc.
       permit2_permit e self owner permitSingle signature w = Some w1
     \<and> permit2_transferFrom e self owner self amount' (token (details permitSingle)) w1 = Some w2
     \<and> oft_approve e (token (details permitSingle)) self (token (details permitSingle))
         (ucast amount') w2 = Some (w3, b)
     \<and> oft_send e (token (details permitSingle)) self msg_value
         \<lparr> dstEid = dstEid', send_to = ucast dstAddress, amountLD = ucast amount',
           minAmountLD = minAmountLD', extraOptions = extraOptions', composeMsg = [],
           oftCmd = [] \<rparr>
         \<lparr> nativeFee = msg_value, lzTokenFee = 0 \<rparr> owner w3 = Some (w', rc, orc)
     \<and> tr = [Call (Permit2_permit owner permitSingle signature),
             Call (Permit2_transferFrom owner self amount' (token (details permitSingle))),
             Emit (TokensTransferred owner self (token (details permitSingle)) amount'),
             Call (OFT_approve (token (details permitSingle)) (token (details permitSingle))
                     (ucast amount')),
             Call (OFT_send (token (details permitSingle)) msg_value
                     \<lparr> dstEid = dstEid', send_to = ucast dstAddress, amountLD = ucast amount',
                       minAmountLD = minAmountLD', extraOptions = extraOptions',
                       composeMsg = [], oftCmd = [] \<rparr>
                     \<lparr> nativeFee = msg_value, lzTokenFee = 0 \<rparr> owner),
             Emit (TokensBridged owner (token (details permitSingle)) dstEid' dstAddress
                     (ucast amount') (guid rc))]))
 \<and> (receiveAndBridgeGasless e self msg_value permit owner signature dstEid' dstAddress
      minAmountLD' extraOptions' w [] = Returned x w' tr \<longrightarrow>
    (\<exists>w1 w2 b rc orc.
       permit2_permitTransferFrom e self permit
         \<lparr> transfer_to = self, requestedAmount = permitted_amount (permitted permit) \<rparr>
         owner signature w = Some w1
     \<and> oft_approve e (permitted_token (permitted permit)) self
         (permitted_token (permitted permit)) (permitted_amount (permitted permit)) w1 =
           Some (w2, b)
     \<and> oft_send e (permitted_token (permitted permit)) self msg_value
         \<lparr> dstEid = dstEid', send_to = ucast dstAddress,
           amountLD = permitted_amount (permitted permit), minAmountLD = minAmountLD',
           extraOptions = extraOptions', composeMsg = [], oftCmd = [] \<rparr>
         \<lparr> nativeFee = msg_value, lzTokenFee = 0 \<rparr> owner w2 = Some (w', rc, orc)
     \<and> tr = [Call (Permit2_permitTransferFrom permit
                     \<lparr> transfer_to = self,
                       requestedAmount = permitted_amount (permitted permit) \<rparr>
                     owner signature),
             Emit (TokensTransferred owner self (permitted_token (permitted permit))
                     (ucast (permitted_amount (permitted permit)))),
             Call (OFT_approve (permitted_token (permitted permit))
                     (permitted_token (permitted permit))
                     (permitted_amount (permitted permit))),
             Call (OFT_send (permitted_token (permitted permit)) msg_value
                     \<lparr> dstEid = dstEid', send_to = ucast dstAddress,
                       amountLD = permitted_amount (permitted permit),
                       minAmountLD = minAmountLD', extraOptions = extraOptions',
                       composeMsg = [], oftCmd = [] \<rparr>
                     \<lparr> nativeFee = msg_value, lzTokenFee = 0 \<rparr> owner),
             Emit (TokensBridged owner (permitted_token (permitted permit)) dstEid'
                     dstAddress (permitted_amount (permitted permit)) (guid rc))]))"
proof (intro conjI impI)
  assume "receiveAndBridge e self msg_value permitSingle signature owner amount' dstEid'
            dstAddress minAmountLD' extraOptions' w [] = Returned x w' tr"
  then show "\<exists>w1 w2 w3 b rc orc.
       permit2_permit e self owner permitSingle signature w = Some w1
     \<and> permit2_transferFrom e self owner self amount' (token (details permitSingle)) w1 = Some w2
     \<and> oft_approve e (token (details permitSingle)) self (token (details permitSingle))
         (ucast amount') w2 = Some (w3, b)
     \<and> oft_send e (token (details permitSingle)) self msg_value
         \<lparr> dstEid = dstEid', send_to = ucast dstAddress, amountLD = ucast amount',
           minAmountLD = minAmountLD', extraOptions = extraOptions', composeMsg = [],
           oftCmd = [] \<rparr>
         \<lparr> nativeFee = msg_value, lzTokenFee = 0 \<rparr> owner w3 = Some (w', rc, orc)
     \<and> tr = [Call (Permit2_permit owner permitSingle signature),
             Call (Permit2_transferFrom owner self amount' (token (details permitSingle))),
             Emit (TokensTransferred owner self (token (details permitSingle)) amount'),
             Call (OFT_approve (token (details permitSingle)) (token (details permitSingle))
                     (ucast amount')),
             Call (OFT_send (token (details permitSingle)) msg_value
                     \<lparr> dstEid = dstEid', send_to = ucast dstAddress, amountLD = ucast amount',
                       minAmountLD = minAmountLD', extraOptions = extraOptions',
                       composeMsg = [], oftCmd = [] \<rparr>
                     \<lparr> nativeFee = msg_value, lzTokenFee = 0 \<rparr> owner),
             Emit (TokensBridged owner (token (details permitSingle)) dstEid' dstAddress
                     (ucast amount') (guid rc))]"
    by (rule receiveAndBridge_Returned)
next
  assume "receiveAndBridgeGasless e self msg_value permit owner signature dstEid' dstAddress
            minAmountLD' extraOptions' w [] = Returned x w' tr"
  then show "\<exists>w1 w2 b rc orc.
       permit2_permitTransferFrom e self permit
         \<lparr> transfer_to = self, requestedAmount = permitted_amount (permitted permit) \<rparr>
         owner signature w = Some w1
     \<and> oft_approve e (permitted_token (permitted permit)) self
         (permitted_token (permitted permit)) (permitted_amount (permitted permit)) w1 =
           Some (w2, b)
     \<and> oft_send e (permitted_token (permitted permit)) self msg_value
         \<lparr> dstEid = dstEid', send_to = ucast dstAddress,
           amountLD = permitted_amount (permitted permit), minAmountLD = minAmountLD',
           extraOptions = extraOptions', composeMsg = [], oftCmd = [] \<rparr>
         \<lparr> nativeFee = msg_value, lzTokenFee = 0 \<rparr> owner w2 = Some (w', rc, orc)
     \<and> tr = [Call (Permit2_permitTransferFrom permit
                     \<lparr> transfer_to = self,
                       requestedAmount = permitted_amount (permitted permit) \<rparr>
                     owner signature),
             Emit (TokensTransferred owner self (permitted_token (permitted permit))
                     (ucast (permitted_amount (permitted permit)))),
             Call (OFT_approve (permitted_token (permitted permit))
                     (permitted_token (permitted permit))
                     (permitted_amount (permitted permit))),
             Call (OFT_send (permitted_token (permitted permit)) msg_value
                     \<lparr> dstEid = dstEid', send_to = ucast dstAddress,
                       amountLD = permitted_amount (permitted permit),
                       minAmountLD = minAmountLD', extraOptions = extraOptions',
                       composeMsg = [], oftCmd = [] \<rparr>
                     \<lparr> nativeFee = msg_value, lzTokenFee = 0 \<rparr> owner),
             Emit (TokensBridged owner (permitted_token (permitted permit)) dstEid'
                     dstAddress (permitted_amount (permitted permit)) (guid rc))]"
    by (rule receiveAndBridgeGasless_Returned)
qed

theorem bridge_flows_in_order_witness:
  "receiveAndBridge sample_env validator_addr 5 (sample_permit validator_addr) [1] alice
     1000000 30111 bob 0 [] sample_world0 [] =
   Returned ()
     (sample_world0\<lparr> allowance := 0, allowed_spender := validator_addr,
        owner_tokens := 2000000, approved := 1000000, approved_spender := usdc,
        validator_tokens := 0, bridged := 1000000 \<rparr>)
     [Call (Permit2_permit alice (sample_permit validator_addr) [1]),
      Call (Permit2_transferFrom alice validator_addr 1000000 usdc),
      Emit (TokensTransferred alice validator_addr usdc 1000000),
      Call (OFT_approve usdc usdc 1000000),
      Call (OFT_send usdc 5
        \<lparr> dstEid = 30111, send_to = ucast bob, amountLD = 1000000, minAmountLD = 0,
          extraOptions = [], composeMsg = [], oftCmd = [] \<rparr>
        \<lparr> nativeFee = 5, lzTokenFee = 0 \<rparr> alice),
      Emit (TokensBridged alice usdc 30111 bob 1000000 42)]
   \<and> (\<exists>w3 w' rc orc. oft_send sample_env usdc validator_addr 5
        \<lparr> dstEid = 30111, send_to = ucast bob, amountLD = 1000000, minAmountLD = 0,
          extraOptions = [], composeMsg = [], oftCmd = [] \<rparr>
        \<lparr> nativeFee = 5, lzTokenFee = 0 \<rparr> alice w3 = Some (w', rc, orc) \<and> guid rc = 42)
   \<and> receiveAndBridgeGasless sample_env validator_addr 5 (sample_transfer_permit 500000) alice
     [1] 30111 bob 0 [] sample_world0 [] =
   Returned ()
     (sample_world0\<lparr> nonce_spent := True, owner_tokens := 2500000,
        approved := 500000, approved_spender := usdc,
        validator_tokens := 0, bridged := 500000 \<rparr>)
     [Call (Permit2_permitTransferFrom (sample_transfer_permit 500000)
          \<lparr> transfer_to = validator_addr, requestedAmount = 500000 \<rparr> alice [1]),
      Emit (TokensTransferred alice validator_addr usdc 500000),
      Call (OFT_approve usdc usdc 500000),
      Call (OFT_send usdc 5
        \<lparr> dstEid = 30111, send_to = ucast bob, amountLD = 500000, minAmountLD = 0,
          extraOptions = [], composeMsg = [], oftCmd = [] \<rparr>
        \<lparr> nativeFee = 5, lzTokenFee = 0 \<rparr> alice),
      Emit (TokensBridged alice usdc 30111 bob 500000 42)]
   \<and> (\<exists>w2 w' rc orc. oft_send sample_env usdc validator_addr 5
        \<lparr> dstEid = 30111, send_to = ucast bob, amountLD = 500000, minAmountLD = 0,
          extraOptions = [], composeMsg = [], oftCmd = [] \<rparr>
        \<lparr> nativeFee = 5, lzTokenFee = 0 \<rparr> alice w2 = Some (w', rc, orc) \<and> guid rc = 42)"
proof -
  note a = sample_receiveAndBridge
  note b = sample_receiveAndBridgeGasless
  have ta: "token (details (sample_permit validator_addr)) = usdc"
    and tb: "permitted_token (permitted (sample_transfer_permit 500000)) = usdc"
    and ab: "permitted_amount (permitted (sample_transfer_permit 500000)) = 500000"
    by (simp_all add: sample_defs)
  from bridge_flows_in_order [THEN conjunct1, rule_format, OF a]
  have "\<exists>w3 w' rc orc. oft_send sample_env usdc validator_addr 5
        \<lparr> dstEid = 30111, send_to = ucast bob, amountLD = 1000000, minAmountLD = 0,
          extraOptions = [], composeMsg = [], oftCmd = [] \<rparr>
        \<lparr> nativeFee = 5, lzTokenFee = 0 \<rparr> alice w3 = Some (w', rc, orc) \<and> guid rc = 42"
    unfolding ta by (elim exE conjE) (simp, blast)
  moreover
  from bridge_flows_in_order [THEN conjunct2, rule_format, OF b]
  have "\<exists>w2 w' rc orc. oft_send sample_env usdc validator_addr 5
        \<lparr> dstEid = 30111, send_to = ucast bob, amountLD = 500000, minAmountLD = 0,
          extraOptions = [], composeMsg = [], oftCmd = [] \<rparr>
        \<lparr> nativeFee = 5, lzTokenFee = 0 \<rparr> alice w2 = Some (w', rc, orc) \<and> guid rc = 42"
    unfolding tb ab by (elim exE conjE) (simp, blast)
  ultimately show ?thesis using a b by blast
qed

subsection \<open>C6: quoteBridge prices the send that the send path makes\<close>

text \<open>
  C6: for the same token, endpoint id, destination address, amount, minimum amount and
  options, \<^verbatim>\<open>quoteBridge\<close> hands \<^verbatim>\<open>quoteSend\<close> the very \<^verbatim>\<open>SendParam\<close> that
  \<^verbatim>\<open>_sendViaLayerZero\<close> hands \<^verbatim>\<open>send\<close> (destination widened to 32 bytes, empty
  \<^verbatim>\<open>composeMsg\<close> and \<^verbatim>\<open>oftCmd\<close>); its one external call is that static query, the
  world it returns is the world it started from, no event is emitted, and the value
  returned is the \<^verbatim>\<open>nativeFee\<close> field of the quoted fee.
\<close>

theorem quoteBridge_matches_send:
  "map send_param_of (calls_of (trace_of
      (quoteBridge e token' dstEid' dstAddress amount' minAmountLD' extraOptions' w []))) =
     [Some \<lparr> dstEid = dstEid', send_to = ucast dstAddress, amountLD = amount',
             minAmountLD = minAmountLD', extraOptions = extraOptions', composeMsg = [],
             oftCmd = [] \<rparr>]
   \<and> map send_param_of (calls_of (trace_of
      (sendViaLayerZero e2 self token' dstEid' dstAddress amount' minAmountLD' extraOptions'
         refundAddress nativeFee' done_ok w2 []))) =
     map send_param_of (calls_of (trace_of
      (quoteBridge e token' dstEid' dstAddress amount' minAmountLD' extraOptions' w [])))
   \<and> quoteBridge e token' dstEid' dstAddress amount' minAmountLD' extraOptions' w [] =
     (case oft_quoteSend e token'
             \<lparr> dstEid = dstEid', send_to = ucast dstAddress, amountLD = amount',
               minAmountLD = minAmountLD', extraOptions = extraOptions', composeMsg = [],
               oftCmd = [] \<rparr> False w of
        None \<Rightarrow> Reverted (External_reverted (OFT_quoteSend token'
                    \<lparr> dstEid = dstEid', send_to = ucast dstAddress, amountLD = amount',
                      minAmountLD = minAmountLD', extraOptions = extraOptions',
                      composeMsg = [], oftCmd = [] \<rparr> False))
                  [Call (OFT_quoteSend token'
                    \<lparr> dstEid = dstEid', send_to = ucast dstAddress, amountLD = amount',
                      minAmountLD = minAmountLD', extraOptions = extraOptions',
                      composeMsg = [], oftCmd = [] \<rparr> False)]
      | Some fee' \<Rightarrow> Returned (nativeFee fee') w
                  [Call (OFT_quoteSend token'
                    \<lparr> dstEid = dstEid', send_to = ucast dstAddress, amountLD = amount',
                      minAmountLD = minAmountLD', extraOptions = extraOptions',
                      composeMsg = [], oftCmd = [] \<rparr> False)])"
proof (intro conjI)
  show q: "map send_param_of (calls_of (trace_of
      (quoteBridge e token' dstEid' dstAddress amount' minAmountLD' extraOptions' w []))) =
     [Some \<lparr> dstEid = dstEid', send_to = ucast dstAddress, amountLD = amount',
             minAmountLD = minAmountLD', extraOptions = extraOptions', composeMsg = [],
             oftCmd = [] \<rparr>]"
    by (simp add: quoteBridge_run split: option.splits)
  have "map send_param_of (calls_of (trace_of
      (sendViaLayerZero e2 self token' dstEid' dstAddress amount' minAmountLD' extraOptions'
         refundAddress nativeFee' done_ok w2 []))) =
     [Some \<lparr> dstEid = dstEid', send_to = ucast dstAddress, amountLD = amount',
             minAmountLD = minAmountLD', extraOptions = extraOptions', composeMsg = [],
             oftCmd = [] \<rparr>]"
    by (simp add: stmt_defs Let_def split: option.splits prod.splits)
  with q show "map send_param_of (calls_of (trace_of
      (sendViaLayerZero e2 self token' dstEid' dstAddress amount' minAmountLD' extraOptions'
         refundAddress nativeFee' done_ok w2 []))) =
     map send_param_of (calls_of (trace_of
      (quoteBridge e token' dstEid' dstAddress amount' minAmountLD' extraOptions' w [])))"
    by simp
  show "quoteBridge e token' dstEid' dstAddress amount' minAmountLD' extraOptions' w [] =
     (case oft_quoteSend e token'
             \<lparr> dstEid = dstEid', send_to = ucast dstAddress, amountLD = amount',
               minAmountLD = minAmountLD', extraOptions = extraOptions', composeMsg = [],
               oftCmd = [] \<rparr> False w of
        None \<Rightarrow> Reverted (External_reverted (OFT_quoteSend token'
                    \<lparr> dstEid = dstEid', send_to = ucast dstAddress, amountLD = amount',
                      minAmountLD = minAmountLD', extraOptions = extraOptions',
                      composeMsg = [], oftCmd = [] \<rparr> False))
                  [Call (OFT_quoteSend token'
                    \<lparr> dstEid = dstEid', send_to = ucast dstAddress, amountLD = amount',
                      minAmountLD = minAmountLD', extraOptions = extraOptions',
                      composeMsg = [], oftCmd = [] \<rparr> False)]
      | Some fee' \<Rightarrow> Returned (nativeFee fee') w
                  [Call (OFT_quoteSend token'
                    \<lparr> dstEid = dstEid', send_to = ucast dstAddress, amountLD = amount',
                      minAmountLD = minAmountLD', extraOptions = extraOptions',
                      composeMsg = [], oftCmd = [] \<rparr> False)])"
    by (rule quoteBridge_run)
qed

theorem quoteBridge_matches_send_witness:
  "quoteBridge sample_env usdc 30111 bob 500000 0 [] sample_world0 [] =
     Returned 5 sample_world0
       [Call (OFT_quoteSend usdc
          \<lparr> dstEid = 30111, send_to = ucast bob, amountLD = 500000, minAmountLD = 0,
            extraOptions = [], composeMsg = [], oftCmd = [] \<rparr> False)]
   \<and> map send_param_of (calls_of (trace_of
        (sendViaLayerZero sample_env validator_addr usdc 30111 bob 500000 0 [] alice 5
           done_ok sample_world0 []))) =
     [Some \<lparr> dstEid = 30111, send_to = ucast bob, amountLD = 500000, minAmountLD = 0,
             extraOptions = [], composeMsg = [], oftCmd = [] \<rparr>]"
proof -
  have q: "oft_quoteSend sample_env usdc
             \<lparr> dstEid = 30111, send_to = ucast bob, amountLD = 500000, minAmountLD = 0,
               extraOptions = [], composeMsg = [], oftCmd = [] \<rparr> False sample_world0 =
           Some \<lparr> nativeFee = 5, lzTokenFee = 0 \<rparr>"
    by (simp add: sample_env_def)
  from quoteBridge_matches_send [of sample_env usdc 30111 bob 500000 0 "[]" sample_world0
         sample_env validator_addr alice 5 sample_world0] q
  show ?thesis by simp
qed

subsection \<open>C7: withdrawTokens\<close>

text \<open>
  C7: \<^verbatim>\<open>withdrawTokens\<close> returns only if the access check passed (the caller is the
  contract itself or the destination is the caller) and the token reported a balance of
  the contract that covers the amount; what it then did is read that balance and call
  \<^verbatim>\<open>approve\<close> for the amount to the destination, nothing that moves tokens, and the
  world is the one \<^verbatim>\<open>approve\<close> returned. Any caller who names themselves as
  destination gets through: the call returns as soon as the balance covers the amount
  and \<^verbatim>\<open>approve\<close> does not revert.
\<close>

theorem withdrawTokens_only_approves:
  "(withdrawTokens e self msg_sender token' to amount' w [] = Returned x w' tr \<longrightarrow>
      (msg_sender = self \<or> to = msg_sender)
    \<and> (\<exists>bal b. oft_balanceOf e token' self w = Some bal \<and> amount' \<le> bal
          \<and> oft_approve e token' self to amount' w = Some (w', b)
          \<and> tr = [Call (OFT_balanceOf token' self), Call (OFT_approve token' to amount')])
    \<and> filter moves_tokens (calls_of tr) = [])
   \<and> (oft_balanceOf e token' self w = Some bal \<and> amount' \<le> bal
        \<and> oft_approve e token' self caller amount' w = Some (w'', b) \<longrightarrow>
      withdrawTokens e self caller token' caller amount' w [] =
        Returned () w'' [Call (OFT_balanceOf token' self), Call (OFT_approve token' caller amount')])"
proof (intro conjI impI)
  assume r: "withdrawTokens e self msg_sender token' to amount' w [] = Returned x w' tr"
  from withdrawTokens_Returned [OF r]
  show "msg_sender = self \<or> to = msg_sender" by blast
  from withdrawTokens_Returned [OF r]
  show "\<exists>bal b. oft_balanceOf e token' self w = Some bal \<and> amount' \<le> bal
          \<and> oft_approve e token' self to amount' w = Some (w', b)
          \<and> tr = [Call (OFT_balanceOf token' self), Call (OFT_approve token' to amount')]"
    by blast
  from withdrawTokens_Returned [OF r]
  show "filter moves_tokens (calls_of tr) = []" by auto
next
  assume "oft_balanceOf e token' self w = Some bal \<and> amount' \<le> bal
        \<and> oft_approve e token' self caller amount' w = Some (w'', b)"
  then show "withdrawTokens e self caller token' caller amount' w [] =
        Returned () w'' [Call (OFT_balanceOf token' self), Call (OFT_approve token' caller amount')]"
    by (simp add: withdrawTokens_def stmt_defs Let_def)
qed

theorem withdrawTokens_only_approves_witness:
  "bob \<noteq> validator_addr
   \<and> withdrawTokens sample_env validator_addr bob usdc bob 700
       (sample_world0\<lparr> validator_tokens := 1000 \<rparr>) [] =
     Returned () (sample_world0\<lparr> validator_tokens := 1000, approved := 700,
                                 approved_spender := bob \<rparr>)
       [Call (OFT_balanceOf usdc validator_addr), Call (OFT_approve usdc bob 700)]
   \<and> oft_balanceOf sample_env usdc validator_addr (sample_world0\<lparr> validator_tokens := 1000 \<rparr>)
       = Some 1000
   \<and> validator_tokens (sample_world0\<lparr> validator_tokens := 1000, approved := 700,
                                 approved_spender := bob \<rparr>) = 1000
   \<and> filter moves_tokens (calls_of
        [Call (OFT_balanceOf usdc validator_addr), Call (OFT_approve usdc bob 700)]) = []"
proof -
  have h: "oft_balanceOf sample_env usdc validator_addr
             (sample_world0\<lparr> validator_tokens := 1000 \<rparr>) = Some 1000
         \<and> (700 :: uint256) \<le> 1000
         \<and> oft_approve sample_env usdc validator_addr bob 700
             (sample_world0\<lparr> validator_tokens := 1000 \<rparr>) =
           Some (sample_world0\<lparr> validator_tokens := 1000, approved := 700,
                                 approved_spender := bob \<rparr>, True)"
    by (simp add: sample_defs)
  have n: "bob \<noteq> validator_addr" by (simp add: sample_defs)
  note r = withdrawTokens_only_approves [THEN conjunct2, rule_format, OF h]
  from withdrawTokens_only_approves [THEN conjunct1, rule_format, OF r] r h n
  show ?thesis by (simp add: sample_defs)
qed

subsection \<open>C8: validatePermit moves no funds\<close>

text \<open>
  C8: the only external call \<^verbatim>\<open>validatePermit\<close> ever makes is the registry's
  \<^verbatim>\<open>permit\<close>: no call that moves tokens is issued, the world after the call is the
  one the registry's \<^verbatim>\<open>permit\<close> returned (so anything that \<^verbatim>\<open>permit\<close> leaves alone,
  such as token balances, is unchanged), and the \<^verbatim>\<open>PermitValidated\<close> event with
  owner, token, spender and amount is emitted exactly when the registry accepts.
\<close>

theorem validatePermit_moves_no_funds:
  "validatePermit e self permitSingle signature owner w [] =
     (case permit2_permit e self owner permitSingle signature w of
        None \<Rightarrow> Reverted (External_reverted (Permit2_permit owner permitSingle signature))
                  [Call (Permit2_permit owner permitSingle signature)]
      | Some w' \<Rightarrow> Returned () w'
                  [Call (Permit2_permit owner permitSingle signature),
                   Emit (PermitValidated owner (token (details permitSingle))
                           (spender permitSingle) (amount (details permitSingle)))])
   \<and> filter moves_tokens (calls_of (trace_of
        (validatePermit e self permitSingle signature owner w []))) = []
   \<and> ((\<forall>w1 w2. permit2_permit e self owner permitSingle signature w1 = Some w2 \<longrightarrow>
           balances w2 = balances w1) \<longrightarrow>
      balances (state_after w (validatePermit e self permitSingle signature owner w [])) =
        balances w)"
  by (simp add: validatePermit_run split: option.splits)

theorem validatePermit_moves_no_funds_witness:
  "validatePermit sample_env validator_addr (sample_permit validator_addr) [1] alice
       sample_world0 [] =
     Returned () (sample_world0\<lparr> allowance := 1000000, allowed_spender := validator_addr \<rparr>)
       [Call (Permit2_permit alice (sample_permit validator_addr) [1]),
        Emit (PermitValidated alice usdc validator_addr 1000000)]
   \<and> (owner_tokens (state_after sample_world0
         (validatePermit sample_env validator_addr (sample_permit validator_addr) [1] alice
            sample_world0 [])),
      validator_tokens (state_after sample_world0
         (validatePermit sample_env validator_addr (sample_permit validator_addr) [1] alice
            sample_world0 [])),
      bridged (state_after sample_world0
         (validatePermit sample_env validator_addr (sample_permit validator_addr) [1] alice
            sample_world0 []))) = (3000000, 0, 0)"
proof -
  have h: "\<forall>w1 w2. permit2_permit sample_env validator_addr alice
              (sample_permit validator_addr) [1] w1 = Some w2 \<longrightarrow>
        (owner_tokens w2, validator_tokens w2, bridged w2) =
        (owner_tokens w1, validator_tokens w1, bridged w1)"
    by (simp add: sample_defs)
  have p: "permit2_permit sample_env validator_addr alice (sample_permit validator_addr) [1]
             sample_world0 =
           Some (sample_world0\<lparr> allowance := 1000000, allowed_spender := validator_addr \<rparr>)"
    by (simp add: sample_defs)
  have z: "(owner_tokens sample_world0, validator_tokens sample_world0, bridged sample_world0)
           = (3000000, 0, 0)"
    by (simp add: sample_defs)
  note t = validatePermit_moves_no_funds [of sample_env validator_addr
             "sample_permit validator_addr" "[1]" alice sample_world0
             "\<lambda>w. (owner_tokens w, validator_tokens w, bridged w)"]
  from t [THEN conjunct1] t [THEN conjunct2, THEN conjunct2, THEN mp, OF h] p z
  show ?thesis by (simp add: sample_defs)
qed

subsection \<open>C9: the truncated amount in the transfer event of receiveAndBridgeGasless\<close>

text \<open>
  C9: in a successful \<^verbatim>\<open>receiveAndBridgeGasless\<close> the registry transfer, the
  approval, the bridge send and the \<^verbatim>\<open>TokensBridged\<close> event all carry the permit's
  256-bit amount, while the \<^verbatim>\<open>TokensTransferred\<close> event carries its conversion to
  160 bits, that is the amount modulo \<open>2 ^ 160\<close>; for an amount of at least \<open>2 ^ 160\<close>
  the two events report different numbers.
\<close>

theorem gasless_transfer_event_truncates:
  assumes "receiveAndBridgeGasless e self msg_value permit owner signature dstEid' dstAddress
             minAmountLD' extraOptions' w [] = Returned x w' tr"
  shows "\<exists>sendParam fee' messageId.
           calls_of tr =
             [Permit2_permitTransferFrom permit
                \<lparr> transfer_to = self, requestedAmount = permitted_amount (permitted permit) \<rparr>
                owner signature,
              OFT_approve (permitted_token (permitted permit))
                (permitted_token (permitted permit)) (permitted_amount (permitted permit)),
              OFT_send (permitted_token (permitted permit)) msg_value sendParam fee' owner]
         \<and> amountLD sendParam = permitted_amount (permitted permit)
         \<and> events_of tr =
             [TokensTransferred owner self (permitted_token (permitted permit))
                (ucast (permitted_amount (permitted permit))),
              TokensBridged owner (permitted_token (permitted permit)) dstEid' dstAddress
                (permitted_amount (permitted permit)) messageId]
         \<and> unat (ucast (permitted_amount (permitted permit)) :: uint160) =
             unat (permitted_amount (permitted permit)) mod 2 ^ 160
         \<and> (2 ^ 160 \<le> unat (permitted_amount (permitted permit)) \<longrightarrow>
              unat (ucast (permitted_amount (permitted permit)) :: uint160) \<noteq>
              unat (permitted_amount (permitted permit)))"
proof -
  have m: "unat (ucast (permitted_amount (permitted permit)) :: uint160) =
             unat (permitted_amount (permitted permit)) mod 2 ^ 160"
    by (rule ucast_low_160)
  have "unat (permitted_amount (permitted permit)) mod 2 ^ 160 < (2 ^ 160 :: nat)"
    by simp
  then have d: "2 ^ 160 \<le> unat (permitted_amount (permitted permit)) \<longrightarrow>
              unat (ucast (permitted_amount (permitted permit)) :: uint160) \<noteq>
              unat (permitted_amount (permitted permit))"
    unfolding m by linarith
  from receiveAndBridgeGasless_Returned [OF assms]
  have "\<exists>messageId.
     tr = [Call (Permit2_permitTransferFrom permit
                     \<lparr> transfer_to = self,
                       requestedAmount = permitted_amount (permitted permit) \<rparr>
                     owner signature),
             Emit (TokensTransferred owner self (permitted_token (permitted permit))
                     (ucast (permitted_amount (permitted permit)))),
             Call (OFT_approve (permitted_token (permitted permit))
                     (permitted_token (permitted permit))
                     (permitted_amount (permitted permit))),
             Call (OFT_send (permitted_token (permitted permit)) msg_value
                     \<lparr> dstEid = dstEid', send_to = ucast dstAddress,
                       amountLD = permitted_amount (permitted permit),
                       minAmountLD = minAmountLD', extraOptions = extraOptions',
                       composeMsg = [], oftCmd = [] \<rparr>
                     \<lparr> nativeFee = msg_value, lzTokenFee = 0 \<rparr> owner),
             Emit (TokensBridged owner (permitted_token (permitted permit)) dstEid'
                     dstAddress (permitted_amount (permitted permit)) messageId)]"
    by (elim exE conjE) (rule exI)
  then obtain messageId where
    "tr = [Call (Permit2_permitTransferFrom permit
                     \<lparr> transfer_to = self,
                       requestedAmount = permitted_amount (permitted permit) \<rparr>
                     owner signature),
             Emit (TokensTransferred owner self (permitted_token (permitted permit))
                     (ucast (permitted_amount (permitted permit)))),
             Call (OFT_approve (permitted_token (permitted permit))
                     (permitted_token (permitted permit))
                     (permitted_amount (permitted permit))),
             Call (OFT_send (permitted_token (permitted permit)) msg_value
                     \<lparr> dstEid = dstEid', send_to = ucast dstAddress,
                       amountLD = permitted_amount (permitted permit),
                       minAmountLD = minAmountLD', extraOptions = extraOptions',
                       composeMsg = [], oftCmd = [] \<rparr>
                     \<lparr> nativeFee = msg_value, lzTokenFee = 0 \<rparr> owner),
             Emit (TokensBridged owner (permitted_token (permitted permit)) dstEid'
                     dstAddress (permitted_amount (permitted permit)) messageId)]" ..
  then have "calls_of tr =
             [Permit2_permitTransferFrom permit
                \<lparr> transfer_to = self, requestedAmount = permitted_amount (permitted permit) \<rparr>
                owner signature,
              OFT_approve (permitted_token (permitted permit))
                (permitted_token (permitted permit)) (permitted_amount (permitted permit)),
              OFT_send (permitted_token (permitted permit)) msg_value
                \<lparr> dstEid = dstEid', send_to = ucast dstAddress,
                  amountLD = permitted_amount (permitted permit),
                  minAmountLD = minAmountLD', extraOptions = extraOptions',
                  composeMsg = [], oftCmd = [] \<rparr>
                \<lparr> nativeFee = msg_value, lzTokenFee = 0 \<rparr> owner]"
    and "events_of tr =
             [TokensTransferred owner self (permitted_token (permitted permit))
                (ucast (permitted_amount (permitted permit))),
              TokensBridged owner (permitted_token (permitted permit)) dstEid' dstAddress
                (permitted_amount (permitted permit)) messageId]"
    by simp_all
  with m d show ?thesis by simp
qed

theorem gasless_transfer_event_truncates_witness:
  "receiveAndBridgeGasless sample_env validator_addr 5 (sample_transfer_permit (2 ^ 160 + 5))
     alice [1] 30111 bob 0 [] (sample_world0\<lparr> owner_tokens := 2 ^ 161 \<rparr>) [] =
   Returned ()
     (sample_world0\<lparr> owner_tokens := 2 ^ 161 - (2 ^ 160 + 5), nonce_spent := True,
        approved := 2 ^ 160 + 5, approved_spender := usdc,
        validator_tokens := 0, bridged := 2 ^ 160 + 5 \<rparr>)
     [Call (Permit2_permitTransferFrom (sample_transfer_permit (2 ^ 160 + 5))
          \<lparr> transfer_to = validator_addr, requestedAmount = 2 ^ 160 + 5 \<rparr> alice [1]),
      Emit (TokensTransferred alice validator_addr usdc 5),
      Call (OFT_approve usdc usdc (2 ^ 160 + 5)),
      Call (OFT_send usdc 5
        \<lparr> dstEid = 30111, send_to = ucast bob, amountLD = 2 ^ 160 + 5, minAmountLD = 0,
          extraOptions = [], composeMsg = [], oftCmd = [] \<rparr>
        \<lparr> nativeFee = 5, lzTokenFee = 0 \<rparr> alice),
      Emit (TokensBridged alice usdc 30111 bob (2 ^ 160 + 5) 42)]
   \<and> 2 ^ 160 \<le> unat (permitted_amount (permitted (sample_transfer_permit (2 ^ 160 + 5))))
   \<and> unat (ucast (permitted_amount (permitted (sample_transfer_permit (2 ^ 160 + 5))))
            :: uint160) \<noteq>
     unat (permitted_amount (permitted (sample_transfer_permit (2 ^ 160 + 5))))"
proof -
  have r: "receiveAndBridgeGasless sample_env validator_addr 5
     (sample_transfer_permit (2 ^ 160 + 5))
     alice [1] 30111 bob 0 [] (sample_world0\<lparr> owner_tokens := 2 ^ 161 \<rparr>) [] =
   Returned ()
     (sample_world0\<lparr> owner_tokens := 2 ^ 161 - (2 ^ 160 + 5), nonce_spent := True,
        approved := 2 ^ 160 + 5, approved_spender := usdc,
        validator_tokens := 0, bridged := 2 ^ 160 + 5 \<rparr>)
     [Call (Permit2_permitTransferFrom (sample_transfer_permit (2 ^ 160 + 5))
          \<lparr> transfer_to = validator_addr, requestedAmount = 2 ^ 160 + 5 \<rparr> alice [1]),
      Emit (TokensTransferred alice validator_addr usdc 5),
      Call (OFT_approve usdc usdc (2 ^ 160 + 5)),
      Call (OFT_send usdc 5
        \<lparr> dstEid = 30111, send_to = ucast bob, amountLD = 2 ^ 160 + 5, minAmountLD = 0,
          extraOptions = [], composeMsg = [], oftCmd = [] \<rparr>
        \<lparr> nativeFee = 5, lzTokenFee = 0 \<rparr> alice),
      Emit (TokensBridged alice usdc 30111 bob (2 ^ 160 + 5) 42)]"
    by (simp add: receiveAndBridgeGasless_def stmt_defs Let_def sample_defs)
  have h: "2 ^ 160 \<le> unat (permitted_amount (permitted (sample_transfer_permit (2 ^ 160 + 5))))"
    by (simp add: sample_defs)
  from gasless_transfer_event_truncates [OF r] h r show ?thesis by blast
qed

subsection \<open>C10: fee and refund address of the bridge send\<close>

text \<open>
  C10: every \<^verbatim>\<open>send\<close> that \<^verbatim>\<open>receiveAndBridge\<close> or \<^verbatim>\<open>receiveAndBridgeGasless\<close>
  issues, in a call that later returns or reverts alike, has a fee whose \<^verbatim>\<open>nativeFee\<close>
  is the whole of \<^verbatim>\<open>msg.value\<close>, which is also the value attached to the call, a
  \<^verbatim>\<open>lzTokenFee\<close> of zero, and the permit owner as refund address.
\<close>

theorem bridge_send_fee_is_msg_value:
  "(OFT_send oft val sendParam fee' refundAddress \<in> set (calls_of (trace_of
       (receiveAndBridge e self msg_value permitSingle signature owner amount' dstEid'
          dstAddress minAmountLD' extraOptions' w []))) \<longrightarrow>
      nativeFee fee' = msg_value \<and> lzTokenFee fee' = 0 \<and> val = msg_value
      \<and> refundAddress = owner)
   \<and> (OFT_send oft val sendParam fee' refundAddress \<in> set (calls_of (trace_of
       (receiveAndBridgeGasless e self msg_value permit owner signature dstEid' dstAddress
          minAmountLD' extraOptions' w []))) \<longrightarrow>
      nativeFee fee' = msg_value \<and> lzTokenFee fee' = 0 \<and> val = msg_value
      \<and> refundAddress = owner)"
proof (rule conjI; rule impI)
  assume "OFT_send oft val sendParam fee' refundAddress \<in> set (calls_of (trace_of
       (receiveAndBridge e self msg_value permitSingle signature owner amount' dstEid'
          dstAddress minAmountLD' extraOptions' w [])))"
  then show "nativeFee fee' = msg_value \<and> lzTokenFee fee' = 0 \<and> val = msg_value
      \<and> refundAddress = owner"
    by (auto simp: receiveAndBridge_def stmt_defs Let_def
             split: if_splits option.splits prod.splits)
next
  assume "OFT_send oft val sendParam fee' refundAddress \<in> set (calls_of (trace_of
       (receiveAndBridgeGasless e self msg_value permit owner signature dstEid' dstAddress
          minAmountLD' extraOptions' w [])))"
  then show "nativeFee fee' = msg_value \<and> lzTokenFee fee' = 0 \<and> val = msg_value
      \<and> refundAddress = owner"
    by (auto simp: receiveAndBridgeGasless_def stmt_defs Let_def
             split: if_splits option.splits prod.splits)
qed

theorem bridge_send_fee_is_msg_value_witness:
  "OFT_send usdc 5
      \<lparr> dstEid = 30111, send_to = ucast bob, amountLD = 1000000, minAmountLD = 0,
        extraOptions = [], composeMsg = [], oftCmd = [] \<rparr>
      \<lparr> nativeFee = 5, lzTokenFee = 0 \<rparr> alice
     \<in> set (calls_of (trace_of
          (receiveAndBridge sample_env validator_addr 5 (sample_permit validator_addr) [1]
             alice 1000000 30111 bob 0 [] sample_world0 [])))
   \<and> OFT_send usdc 5
      \<lparr> dstEid = 30111, send_to = ucast bob, amountLD = 500000, minAmountLD = 0,
        extraOptions = [], composeMsg = [], oftCmd = [] \<rparr>
      \<lparr> nativeFee = 5, lzTokenFee = 0 \<rparr> alice
     \<in> set (calls_of (trace_of
          (receiveAndBridgeGasless sample_env validator_addr 5 (sample_transfer_permit 500000)
             alice [1] 30111 bob 0 [] sample_world0 [])))
   \<and> nativeFee \<lparr> nativeFee = 5 :: uint256, lzTokenFee = 0 \<rparr> = 5
   \<and> lzTokenFee \<lparr> nativeFee = 5 :: uint256, lzTokenFee = 0 \<rparr> = 0"
proof -
  have a: "OFT_send usdc 5
      \<lparr> dstEid = 30111, send_to = ucast bob, amountLD = 1000000, minAmountLD = 0,
        extraOptions = [], composeMsg = [], oftCmd = [] \<rparr>
      \<lparr> nativeFee = 5, lzTokenFee = 0 \<rparr> alice
     \<in> set (calls_of (trace_of
          (receiveAndBridge sample_env validator_addr 5 (sample_permit validator_addr) [1]
             alice 1000000 30111 bob 0 [] sample_world0 [])))"
    by (simp add: sample_receiveAndBridge)
  have b: "OFT_send usdc 5
      \<lparr> dstEid = 30111, send_to = ucast bob, amountLD = 500000, minAmountLD = 0,
        extraOptions = [], composeMsg = [], oftCmd = [] \<rparr>
      \<lparr> nativeFee = 5, lzTokenFee = 0 \<rparr> alice
     \<in> set (calls_of (trace_of
          (receiveAndBridgeGasless sample_env validator_addr 5 (sample_transfer_permit 500000)
             alice [1] 30111 bob 0 [] sample_world0 [])))"
    by (simp add: sample_receiveAndBridgeGasless)
  from bridge_send_fee_is_msg_value [THEN conjunct1, THEN mp, OF a]
       bridge_send_fee_is_msg_value [THEN conjunct2, THEN mp, OF b] a b
  show ?thesis by simp
qed

end
